theory Spec2Isabelle
  imports Complex_Main "HOL-Library.Option_ord" "HOL-Library.Sublist" "HOL-Library.Multiset"
begin

section \<open>Strength prescriptor: the store, its operations and the pages\<close>

text \<open>
  A shallow embedding of \<^verbatim>\<open>streamlit_strength_only.py\<close>. The SQLite database is a record
  of seven tables; a table is the list of its rows in rowid order. Every operation of the
  program takes the store and returns the store it leaves behind.

  Conventions of the embedding:
  \<^item> a column that the schema leaves nullable is an \<open>option\<close>; \<open>None\<close> is SQL NULL,
    which SQLite orders before every value, as \<open>Option_ord\<close> does;
  \<^item> a \<^verbatim>\<open>Date\<close> is its proleptic Gregorian ordinal (\<^verbatim>\<open>date.toordinal()\<close>), between 1
    and 3652059;
  \<^item> a \<^verbatim>\<open>Float\<close> column is a real number: the products and sums below are the exact
    ones. The statements about tonnage say which numbers are multiplied and added; how
    the machine rounds a double is not modelled;
  \<^item> a string is the list of its UTF-8 bytes;
  \<^item> the readings of the system clock are parameters of the operation that reads them;
  \<^item> a widget is the value it returns in the run: what the user chose or typed, or the
    value the widget started with.
\<close>

subsection \<open>Models (lines 44 to 123)\<close>

type_synonym date = int
type_synonym datetime = int

record user =
  user_id :: int
  user_email :: string
  user_name :: string
  user_role :: "string option"
  user_hash :: string
  user_created_at :: "datetime option"

record client =
  client_id :: int
  client_user_id :: "int option"
  client_sex :: "string option"
  client_dob :: "date option"
  client_height_cm :: "real option"
  client_weight_kg :: "real option"
  client_notes :: "string option"
  client_owner_id :: "int option"

record exercise =
  exercise_id :: int
  exercise_name :: "string option"
  exercise_category :: "string option"
  exercise_equipment :: "string option"
  exercise_unilateral :: "bool option"
  exercise_description :: "string option"

record training_plan =
  plan_id :: int
  plan_client_id :: "int option"
  plan_name :: "string option"
  plan_start_date :: "date option"
  plan_end_date :: "date option"
  plan_goal :: "string option"

record training_session =
  session_id :: int
  session_plan_id :: "int option"
  session_date :: "date option"
  session_focus :: "string option"
  session_notes :: "string option"

record set_prescription =
  sp_id :: int
  sp_session_id :: "int option"
  sp_exercise_id :: "int option"
  sp_sets :: "int option"
  sp_reps :: "int option"
  sp_intensity_pct_1rm :: "real option"
  sp_load_kg :: "real option"
  sp_rest_sec :: "int option"
  sp_notes :: "string option"

record strength_test =
  test_id :: int
  test_client_id :: "int option"
  test_exercise_id :: "int option"
  test_date :: "date option"
  test_one_rm_kg :: "real option"
  test_notes :: "string option"

record store =
  users :: "user list"
  clients :: "client list"
  exercises :: "exercise list"
  training_plans :: "training_plan list"
  training_sessions :: "training_session list"
  set_prescriptions :: "set_prescription list"
  strength_tests :: "strength_test list"

text \<open>What \<^verbatim>\<open>drop_all\<close> followed by \<^verbatim>\<open>create_all\<close> leaves: seven empty tables.\<close>

definition empty_store :: store where
  "empty_store = \<lparr>users = [], clients = [], exercises = [], training_plans = [],
     training_sessions = [], set_prescriptions = [], strength_tests = []\<rparr>"

datatype error = IntegrityError | OverflowError | AttributeError | TypeError | KeyError

subsection \<open>Inserting rows\<close>

text \<open>
  An \<^verbatim>\<open>Integer\<close> primary key that the program never sets is the rowid SQLite assigns:
  one more than the largest in the table, 1 in an empty table.
\<close>

definition next_rowid :: "int list \<Rightarrow> int" where
  "next_rowid ids = fold max ids 0 + 1"

text \<open>
  \<^verbatim>\<open>db.add(row); db.commit()\<close>. The engine of line 36 is SQLite as SQLAlchemy opens it:
  the \<^verbatim>\<open>ForeignKey\<close> declarations are part of the schema, and no statement of the program
  turns their enforcement on, so a foreign key is stored as given. The two \<^verbatim>\<open>unique\<close>
  columns (\<^verbatim>\<open>users.email\<close>, \<^verbatim>\<open>exercises.name\<close>) reject a value that is already in the
  table; NULL never clashes. Each insert returns the key it assigned.
\<close>

definition insert_user :: "user \<Rightarrow> store \<Rightarrow> error + (int \<times> store)" where
  "insert_user u db =
     (if user_email u \<in> set (map user_email (users db)) then Inl IntegrityError
      else let i = next_rowid (map user_id (users db))
           in Inr (i, db\<lparr>users := users db @ [u\<lparr>user_id := i\<rparr>]\<rparr>))"

definition insert_client :: "client \<Rightarrow> store \<Rightarrow> int \<times> store" where
  "insert_client c db =
     (let i = next_rowid (map client_id (clients db))
      in (i, db\<lparr>clients := clients db @ [c\<lparr>client_id := i\<rparr>]\<rparr>))"

definition insert_exercise :: "exercise \<Rightarrow> store \<Rightarrow> error + store" where
  "insert_exercise e db =
     (if exercise_name e \<noteq> None \<and> exercise_name e \<in> set (map exercise_name (exercises db))
      then Inl IntegrityError
      else let i = next_rowid (map exercise_id (exercises db))
           in Inr (db\<lparr>exercises := exercises db @ [e\<lparr>exercise_id := i\<rparr>]\<rparr>))"

fun insert_exercises :: "exercise list \<Rightarrow> store \<Rightarrow> error + store" where
  "insert_exercises [] db = Inr db"
| "insert_exercises (e # es) db =
     (case insert_exercise e db of Inl err \<Rightarrow> Inl err | Inr db' \<Rightarrow> insert_exercises es db')"

definition insert_plan :: "training_plan \<Rightarrow> store \<Rightarrow> int \<times> store" where
  "insert_plan p db =
     (let i = next_rowid (map plan_id (training_plans db))
      in (i, db\<lparr>training_plans := training_plans db @ [p\<lparr>plan_id := i\<rparr>]\<rparr>))"

definition insert_session :: "training_session \<Rightarrow> store \<Rightarrow> int \<times> store" where
  "insert_session s db =
     (let i = next_rowid (map session_id (training_sessions db))
      in (i, db\<lparr>training_sessions := training_sessions db @ [s\<lparr>session_id := i\<rparr>]\<rparr>))"

definition insert_set_prescription :: "set_prescription \<Rightarrow> store \<Rightarrow> int \<times> store" where
  "insert_set_prescription sp db =
     (let i = next_rowid (map sp_id (set_prescriptions db))
      in (i, db\<lparr>set_prescriptions := set_prescriptions db @ [sp\<lparr>sp_id := i\<rparr>]\<rparr>))"

definition insert_strength_test :: "strength_test \<Rightarrow> store \<Rightarrow> int \<times> store" where
  "insert_strength_test t db =
     (let i = next_rowid (map test_id (strength_tests db))
      in (i, db\<lparr>strength_tests := strength_tests db @ [t\<lparr>test_id := i\<rparr>]\<rparr>))"

subsection \<open>Demo data (lines 133 to 153) and the reset (lines 354 to 357)\<close>

text \<open>
  The clock as \<^verbatim>\<open>init_demo_data\<close> reads it: \<^verbatim>\<open>utcnow\<close> once for each user row (the
  default of \<^verbatim>\<open>created_at\<close>) and \<^verbatim>\<open>date.today()\<close> twice, for the start and for the end
  of the plan.
\<close>

record clock =
  utcnow_coach :: datetime
  utcnow_client :: datetime
  today_start :: date
  today_end :: date

text \<open>\<^verbatim>\<open>date + timedelta(days=n)\<close> raises OverflowError outside the years 1 to 9999.\<close>

definition date_add :: "date \<Rightarrow> int \<Rightarrow> error + date" where
  "date_add d n = (if 1 \<le> d + n \<and> d + n \<le> 3652059 then Inr (d + n) else Inl OverflowError)"

definition demo_exercises :: "exercise list" where
  "demo_exercises =
    [\<lparr>exercise_id = 0, exercise_name = Some ''Back Squat'', exercise_category = Some ''squat'',
      exercise_equipment = Some ''barbell'', exercise_unilateral = Some False,
      exercise_description = Some ''''\<rparr>,
     \<lparr>exercise_id = 0, exercise_name = Some ''Bench Press'', exercise_category = Some ''push'',
      exercise_equipment = Some ''barbell'', exercise_unilateral = Some False,
      exercise_description = Some ''''\<rparr>,
     \<lparr>exercise_id = 0, exercise_name = Some ''Deadlift'', exercise_category = Some ''hinge'',
      exercise_equipment = Some ''barbell'', exercise_unilateral = Some False,
      exercise_description = Some ''''\<rparr>,
     \<lparr>exercise_id = 0, exercise_name = Some ''Lat Pulldown'', exercise_category = Some ''pull'',
      exercise_equipment = Some ''machine'', exercise_unilateral = Some False,
      exercise_description = Some ''''\<rparr>]"

text \<open>
  The result is the store the call leaves and the exception it raised, if any. The three
  commits are the three points a later failure rolls back to: a failing insert of the
  second transaction leaves the users, an overflowing end date leaves all but the plan.
  The goal of the plan is \<^verbatim>\<open>Fuerza b\<close>, a with acute accent (two bytes), \<^verbatim>\<open>sica\<close>.
\<close>

definition init_demo_data :: "clock \<Rightarrow> store \<Rightarrow> store \<times> error option" where
  "init_demo_data ck db =
     (if users db \<noteq> [] then (db, None)
      else
        case insert_user \<lparr>user_id = 0, user_email = ''coach@example.com'',
               user_name = ''Coach Demo'', user_role = Some ''coach'', user_hash = ''demo'',
               user_created_at = Some (utcnow_coach ck)\<rparr> db of
          Inl err \<Rightarrow> (db, Some err)
        | Inr (coach_pk, db1) \<Rightarrow>
        case insert_user \<lparr>user_id = 0, user_email = ''client@example.com'',
               user_name = ''Client Demo'', user_role = Some ''client'', user_hash = ''demo'',
               user_created_at = Some (utcnow_client ck)\<rparr> db1 of
          Inl err \<Rightarrow> (db, Some err)
        | Inr (client_user_pk, db2) \<Rightarrow>
        case insert_client \<lparr>client_id = 0, client_user_id = Some client_user_pk,
               client_sex = Some ''female'', client_dob = Some 726468,
               client_height_cm = Some 165, client_weight_kg = Some 60,
               client_notes = Some '''', client_owner_id = Some coach_pk\<rparr> db2 of
          (c_pk, db3) \<Rightarrow>
        case insert_exercises demo_exercises db3 of
          Inl err \<Rightarrow> (db2, Some err)
        | Inr db4 \<Rightarrow>
        case date_add (today_end ck) 27 of
          Inl err \<Rightarrow> (db4, Some err)
        | Inr end_date \<Rightarrow>
        case insert_plan \<lparr>plan_id = 0, plan_client_id = Some c_pk,
               plan_name = Some ''Preseason 4 weeks'', plan_start_date = Some (today_start ck),
               plan_end_date = Some end_date,
               plan_goal = Some (''Fuerza b'' @ [CHR 0xC3, CHR 0xA1] @ ''sica'')\<rparr> db4 of
          (plan_pk, db5) \<Rightarrow> (db5, None))"

text \<open>The button of the Settings page: drop every table, create them again, seed.\<close>

definition reset_database :: "clock \<Rightarrow> store \<Rightarrow> store \<times> error option" where
  "reset_database ck db = init_demo_data ck empty_store"

subsection \<open>Lookups by primary key\<close>

text \<open>\<^verbatim>\<open>db.query(M).get(k)\<close>: the row with that key, None when there is none or k is None.\<close>

definition get_user :: "store \<Rightarrow> int option \<Rightarrow> user option" where
  "get_user db k = (case k of None \<Rightarrow> None | Some i \<Rightarrow> find (\<lambda>u. user_id u = i) (users db))"

definition get_exercise :: "store \<Rightarrow> int option \<Rightarrow> exercise option" where
  "get_exercise db k =
     (case k of None \<Rightarrow> None | Some i \<Rightarrow> find (\<lambda>e. exercise_id e = i) (exercises db))"

definition get_plan :: "store \<Rightarrow> int option \<Rightarrow> training_plan option" where
  "get_plan db k =
     (case k of None \<Rightarrow> None | Some i \<Rightarrow> find (\<lambda>p. plan_id p = i) (training_plans db))"

text \<open>
  What the schema declares of a client row (lines 57 and 63, \<^verbatim>\<open>ForeignKey("users.id")\<close>):
  its \<^verbatim>\<open>user_id\<close> and its \<^verbatim>\<open>owner_id\<close> are NULL or the key of a user row. The
  declaration is part of the table; \<open>insert_client\<close> above is what the engine of line 36
  does with it.
\<close>

definition client_foreign_keys_hold :: "store \<Rightarrow> client \<Rightarrow> bool" where
  "client_foreign_keys_hold db c =
     ((case client_user_id c of None \<Rightarrow> True | Some i \<Rightarrow> get_user db (Some i) \<noteq> None) \<and>
      (case client_owner_id c of None \<Rightarrow> True | Some i \<Rightarrow> get_user db (Some i) \<noteq> None))"

subsection \<open>Ordering\<close>

text \<open>
  \<^verbatim>\<open>order_by(col.desc())\<close>: largest key first, NULL last. Rows with equal keys keep their
  rowid order in the model; SQLite promises no order among them, and no statement below
  relies on one.
  The ascending \<^verbatim>\<open>order_by(col)\<close> is \<open>sort_key\<close>.
\<close>

fun insort_desc :: "('a \<Rightarrow> 'k::linorder) \<Rightarrow> 'a \<Rightarrow> 'a list \<Rightarrow> 'a list" where
  "insort_desc k x [] = [x]"
| "insort_desc k x (y # ys) = (if k y \<le> k x then x # y # ys else y # insort_desc k x ys)"

definition order_by_desc :: "('a \<Rightarrow> 'k::linorder) \<Rightarrow> 'a list \<Rightarrow> 'a list" where
  "order_by_desc k xs = foldr (insort_desc k) xs []"

subsection \<open>Login and the gate (lines 163 to 182, 377 to 406)\<close>

text \<open>
  Of \<^verbatim>\<open>st.session_state\<close> the program reads and writes the key \<^verbatim>\<open>user\<close> only: the state
  is that entry, None when the key is absent.
\<close>

record session_user =
  su_id :: int
  su_name :: string
  su_role :: "string option"
  su_email :: string

type_synonym session_state = "session_user option"

datatype page = Strength_Tests | Sessions | Diagnostics | Settings

text \<open>What the widgets of the sidebar return in one run of the script.\<close>

record sidebar =
  sb_log_out :: bool
  sb_page :: page
  sb_email :: string
  sb_password :: string
  sb_sign_in :: bool

definition login :: "store \<Rightarrow> sidebar \<Rightarrow> session_state \<Rightarrow> session_state" where
  "login db sb ss =
     (if sb_sign_in sb then
        (case find (\<lambda>u. user_email u = sb_email sb \<and> user_hash u = sb_password sb) (users db) of
           Some u \<Rightarrow> Some \<lparr>su_id = user_id u, su_name = user_name u, su_role = user_role u,
                           su_email = user_email u\<rparr>
         | None \<Rightarrow> ss)
      else ss)"

text \<open>The second component tells whether \<^verbatim>\<open>st.stop()\<close> ended the run.\<close>

definition require_auth :: "store \<Rightarrow> sidebar \<Rightarrow> session_state \<Rightarrow> session_state \<times> bool" where
  "require_auth db sb ss = (case ss of None \<Rightarrow> (login db sb ss, True) | Some u \<Rightarrow> (ss, False))"

text \<open>
  The layout: the log-out button, the gate, the dispatch. The result is the session state
  the run leaves and the page whose function the run calls, None when the run was stopped.
\<close>

definition app_layout :: "store \<Rightarrow> sidebar \<Rightarrow> session_state \<Rightarrow> session_state \<times> page option" where
  "app_layout db sb ss =
     (let ss1 = (if ss \<noteq> None \<and> sb_log_out sb then None else ss)
      in case (if ss1 = None \<and> sb_page sb \<notin> {Diagnostics} then require_auth db sb ss1
               else (ss1, False)) of
           (ss2, stopped) \<Rightarrow> (ss2, if stopped then None else Some (sb_page sb)))"

text \<open>
  A browser session is a sequence of runs, each with the store of its moment and what the
  sidebar returned, from the session state the run before it left.
\<close>

fun layout_runs :: "(store \<times> sidebar) list \<Rightarrow> session_state \<Rightarrow> session_state" where
  "layout_runs [] ss = ss"
| "layout_runs ((db, sb) # rs) ss = layout_runs rs (fst (app_layout db sb ss))"

text \<open>
  The user of the session state is the one a run signed in: a row of the users table of
  that run whose email and hash are the two the sidebar was given.
\<close>

definition authenticated_by :: "store \<Rightarrow> sidebar \<Rightarrow> session_user \<Rightarrow> bool" where
  "authenticated_by db sb su =
     (\<exists>u\<in>set (users db). user_email u = sb_email sb \<and> user_hash u = sb_password sb \<and>
        su = \<lparr>su_id = user_id u, su_name = user_name u, su_role = user_role u,
              su_email = user_email u\<rparr>)"

subsection \<open>Strength tests (lines 189 to 229)\<close>

text \<open>
  A dict comprehension: a later row overwrites the entry of an earlier one with the same
  key. The client map fails with AttributeError at a client whose user row is missing.
\<close>

fun client_map :: "store \<Rightarrow> client list \<Rightarrow> (string \<rightharpoonup> int) \<Rightarrow> error + (string \<rightharpoonup> int)" where
  "client_map db [] m = Inr m"
| "client_map db (c # cs) m =
     (case get_user db (client_user_id c) of
        None \<Rightarrow> Inl AttributeError
      | Some u \<Rightarrow> client_map db cs (m(user_name u \<mapsto> client_id c)))"

definition exercise_map :: "exercise list \<Rightarrow> (string option \<rightharpoonup> int)" where
  "exercise_map exs = fold (\<lambda>e m. m(exercise_name e \<mapsto> exercise_id e)) exs Map.empty"

text \<open>The query of lines 218 to 224.\<close>

definition recent_tests :: "store \<Rightarrow> int \<Rightarrow> strength_test list" where
  "recent_tests db cid =
     take 20 (order_by_desc test_date
       (filter (\<lambda>t. test_client_id t = Some cid) (strength_tests db)))"

text \<open>
  The loop of lines 225 to 227 writes one line for each test: its date, the name of its
  exercise, its 1RM (shown with one decimal). \<^verbatim>\<open>ex.name\<close> raises AttributeError when
  the exercise row is missing, the format \<^verbatim>\<open>.1f\<close> raises TypeError on None.
\<close>

record history_line =
  line_date :: "date option"
  line_exercise :: "string option"
  line_one_rm_kg :: real

fun write_history :: "store \<Rightarrow> strength_test list \<Rightarrow> error + history_line list" where
  "write_history db [] = Inr []"
| "write_history db (t # ts) =
     (case get_exercise db (test_exercise_id t) of
        None \<Rightarrow> Inl AttributeError
      | Some ex \<Rightarrow>
        (case test_one_rm_kg t of
           None \<Rightarrow> Inl TypeError
         | Some w \<Rightarrow>
           (case write_history db ts of
              Inl err \<Rightarrow> Inl err
            | Inr ls \<Rightarrow> Inr (\<lparr>line_date = test_date t, line_exercise = exercise_name ex,
                               line_one_rm_kg = w\<rparr> # ls))))"

text \<open>What the widgets of the page return in one run.\<close>

record tests_form =
  tf_client_name :: string
  tf_ex_name :: "string option"
  tf_date :: date
  tf_onerm :: real
  tf_notes :: string
  tf_save :: bool

datatype tests_view = No_Clients | No_Exercises | History "history_line list"

text \<open>Lines 212 to 214, the insert behind the save button.\<close>

definition save_test :: "int \<Rightarrow> int \<Rightarrow> tests_form \<Rightarrow> store \<Rightarrow> store" where
  "save_test cid eid f db =
     snd (insert_strength_test
       \<lparr>test_id = 0, test_client_id = Some cid, test_exercise_id = Some eid,
        test_date = Some (tf_date f), test_one_rm_kg = Some (tf_onerm f),
        test_notes = Some (tf_notes f)\<rparr> db)"

definition page_strength_tests ::
  "session_user \<Rightarrow> tests_form \<Rightarrow> store \<Rightarrow> store \<times> (error + tests_view)" where
  "page_strength_tests su f db =
     (let cs = filter (\<lambda>c. client_owner_id c = Some (su_id su)) (clients db) in
      if cs = [] then (db, Inr No_Clients)
      else case client_map db cs Map.empty of
        Inl err \<Rightarrow> (db, Inl err)
      | Inr cmap \<Rightarrow>
        if exercises db = [] then (db, Inr No_Exercises)
        else
          let exmap = exercise_map (exercises db) in
          case (if tf_save f then
                  (case cmap (tf_client_name f) of
                     None \<Rightarrow> Inl KeyError
                   | Some cid \<Rightarrow>
                     (case exmap (tf_ex_name f) of
                        None \<Rightarrow> Inl KeyError
                      | Some eid \<Rightarrow> Inr (save_test cid eid f db)))
                else Inr db) of
            Inl err \<Rightarrow> (db, Inl err)
          | Inr db' \<Rightarrow>
            (case cmap (tf_client_name f) of
               None \<Rightarrow> (db', Inl KeyError)
             | Some cid \<Rightarrow>
               (case write_history db' (recent_tests db' cid) of
                  Inl err \<Rightarrow> (db', Inl err)
                | Inr ls \<Rightarrow> (db', Inr (History ls)))))"

subsection \<open>Sessions and sets (lines 232 to 348)\<close>

text \<open>Python's \<^verbatim>\<open>x or d\<close> on a nullable number: \<open>d\<close> when \<open>x\<close> is None or zero.\<close>

definition py_or :: "'a::zero option \<Rightarrow> 'a \<Rightarrow> 'a" where
  "py_or x d = (case x of None \<Rightarrow> d | Some v \<Rightarrow> if v = 0 then d else v)"

definition get_client_id_from_plan :: "training_plan \<Rightarrow> int option" where
  "get_client_id_from_plan pl = plan_client_id pl"

text \<open>
  Lines 251 to 258. The client is the \<^verbatim>\<open>client_id\<close> of the plan, a nullable column:
  SQLAlchemy compares with None by \<^verbatim>\<open>IS NULL\<close>, which is the equality of \<open>option\<close>.
  The result is the \<^verbatim>\<open>one_rm_kg\<close> of the first row, itself nullable.
\<close>

definition get_latest_one_rm :: "store \<Rightarrow> int option \<Rightarrow> int \<Rightarrow> real option" where
  "get_latest_one_rm db cid eid =
     (case order_by_desc test_date
             (filter (\<lambda>t. test_client_id t = cid \<and> test_exercise_id t = Some eid)
                (strength_tests db)) of
        [] \<Rightarrow> None
      | test # _ \<Rightarrow> test_one_rm_kg test)"

text \<open>Line 305, the value the 1RM field starts with: \<^verbatim>\<open>float(latest_1rm) if latest_1rm else 100.0\<close>.\<close>

definition one_rm_default :: "real option \<Rightarrow> real" where
  "one_rm_default latest_1rm =
     (case latest_1rm of None \<Rightarrow> 100 | Some v \<Rightarrow> if v \<noteq> 0 then v else 100)"

text \<open>Line 339: \<^verbatim>\<open>(sp.sets or 0) * (sp.reps or 0) * (sp.load_kg or 0.0)\<close>.\<close>

definition tonnage :: "set_prescription \<Rightarrow> real" where
  "tonnage sp = real_of_int (py_or (sp_sets sp) 0 * py_or (sp_reps sp) 0) * py_or (sp_load_kg sp) 0"

text \<open>
  The loop of lines 337 to 345 over the sets of one session, from the running total
  \<open>acc\<close> (\<^verbatim>\<open>session_tonnage\<close> in the source, 0.0 at the start).
  Writing the line of a set raises AttributeError when its exercise row is missing
  (\<^verbatim>\<open>e.name\<close>) and TypeError when its load is NULL (the format \<^verbatim>\<open>.1f\<close>). The result is
  the total that line 346 shows, with one decimal.
\<close>

fun show_sets :: "store \<Rightarrow> set_prescription list \<Rightarrow> real \<Rightarrow> error + real" where
  "show_sets db [] acc = Inr acc"
| "show_sets db (sp # sps) acc =
     (case get_exercise db (sp_exercise_id sp) of
        None \<Rightarrow> Inl AttributeError
      | Some e \<Rightarrow>
        (case sp_load_kg sp of
           None \<Rightarrow> Inl TypeError
         | Some load \<Rightarrow> show_sets db sps (acc + tonnage sp)))"

text \<open>Lines 334 to 346 for the session with key \<open>sid\<close>.\<close>

definition session_tonnage :: "store \<Rightarrow> int \<Rightarrow> error + real" where
  "session_tonnage db sid =
     show_sets db (filter (\<lambda>sp. sp_session_id sp = Some sid) (set_prescriptions db)) 0"

text \<open>
  What the widgets return in one run. The widgets of a session carry its key in theirs, so
  the form of a set is a function of the session key. At most one button is pressed in a
  run: the run is the answer to one interaction. The date field of a new session starts
  at the start date of the plan, a nullable column, so the date it returns is an option.
\<close>

datatype click = No_Click | Add_Session | Add_Set int

record set_form =
  sf_ex_name :: "string option"
  sf_sets :: int
  sf_reps :: int
  sf_pct :: int
  sf_load :: real
  sf_rest :: int
  sf_notes :: string

type_synonym plan_label = "string option \<times> date option \<times> date option"

record sessions_form =
  f_plan :: plan_label
  f_date :: "date option"
  f_focus :: string
  f_notes :: string
  f_set :: "int \<Rightarrow> set_form"
  f_click :: click

text \<open>
  The label of a plan in the select box is made of its name and its two dates; the model
  keeps the three apart.
\<close>

definition plan_map :: "training_plan list \<Rightarrow> (plan_label \<rightharpoonup> int)" where
  "plan_map plans =
     fold (\<lambda>p m. m((plan_name p, plan_start_date p, plan_end_date p) \<mapsto> plan_id p)) plans Map.empty"

record session_view =
  sv_session :: training_session
  sv_one_rm_default :: real
  sv_tonnage :: real

datatype sessions_view = No_Plans | Session_List "session_view list"

text \<open>Lines 266 to 268, the insert behind the button that adds a session to the plan.\<close>

definition add_session :: "training_plan \<Rightarrow> sessions_form \<Rightarrow> store \<Rightarrow> store" where
  "add_session plan f db =
     snd (insert_session
       \<lparr>session_id = 0, session_plan_id = Some (plan_id plan), session_date = f_date f,
        session_focus = Some (f_focus f), session_notes = Some (f_notes f)\<rparr> db)"

text \<open>
  Lines 319 to 330, the insert behind the button that adds a set to session \<open>s\<close>. The load
  that is stored is the one the load field returns; the suggested load (line 309) is only
  the value that field starts with, and is not part of the model.
\<close>

definition add_set :: "training_session \<Rightarrow> int \<Rightarrow> set_form \<Rightarrow> store \<Rightarrow> store" where
  "add_set s ex_id w db =
     snd (insert_set_prescription
       \<lparr>sp_id = 0, sp_session_id = Some (session_id s), sp_exercise_id = Some ex_id,
        sp_sets = Some (sf_sets w), sp_reps = Some (sf_reps w),
        sp_intensity_pct_1rm = Some (real_of_int (sf_pct w)), sp_load_kg = Some (sf_load w),
        sp_rest_sec = Some (sf_rest w), sp_notes = Some (sf_notes w)\<rparr> db)"

text \<open>The loop of lines 281 to 346 over the sessions of the plan.\<close>

fun session_blocks ::
  "training_plan \<Rightarrow> sessions_form \<Rightarrow> (string option \<rightharpoonup> int) \<Rightarrow> training_session list \<Rightarrow> store
     \<Rightarrow> store \<times> (error + session_view list)" where
  "session_blocks plan f exmap [] db = (db, Inr [])"
| "session_blocks plan f exmap (s # ss) db =
     (case exmap (sf_ex_name (f_set f (session_id s))) of
        None \<Rightarrow> (db, Inl KeyError)
      | Some ex_id \<Rightarrow>
        let latest_1rm = get_latest_one_rm db (get_client_id_from_plan plan) ex_id;
            db1 = (if f_click f = Add_Set (session_id s)
                   then add_set s ex_id (f_set f (session_id s)) db else db)
        in case session_tonnage db1 (session_id s) of
             Inl err \<Rightarrow> (db1, Inl err)
           | Inr shown \<Rightarrow>
             (case session_blocks plan f exmap ss db1 of
                (db2, Inl err) \<Rightarrow> (db2, Inl err)
              | (db2, Inr vs) \<Rightarrow>
                  (db2, Inr (\<lparr>sv_session = s, sv_one_rm_default = one_rm_default latest_1rm,
                              sv_tonnage = shown\<rparr> # vs))))"

definition page_sessions :: "sessions_form \<Rightarrow> store \<Rightarrow> store \<times> (error + sessions_view)" where
  "page_sessions f db =
     (if training_plans db = [] then (db, Inr No_Plans)
      else case plan_map (training_plans db) (f_plan f) of
        None \<Rightarrow> (db, Inl KeyError)
      | Some pk \<Rightarrow>
        (case get_plan db (Some pk) of
           None \<Rightarrow> (db, Inl AttributeError)
         | Some plan \<Rightarrow>
           let db1 = (if f_click f = Add_Session then add_session plan f db else db);
               sessions = sort_key session_date
                 (filter (\<lambda>s. session_plan_id s = Some (plan_id plan)) (training_sessions db1));
               exmap = exercise_map (exercises db1)
           in case session_blocks plan f exmap sessions db1 of
                (db2, Inl err) \<Rightarrow> (db2, Inl err)
              | (db2, Inr vs) \<Rightarrow> (db2, Inr (Session_List vs))))"

subsection \<open>Settings and diagnostics (lines 351 to 370)\<close>

definition page_settings :: "clock \<Rightarrow> bool \<Rightarrow> store \<Rightarrow> store \<times> error option" where
  "page_settings ck reset_clicked db = (if reset_clicked then reset_database ck db else (db, None))"


subsection \<open>One run of the script\<close>

text \<open>
  Streamlit runs the whole file at every interaction: the seeding of line 156, the sidebar
  and the gate, then the function of the page. The clock is read by the seeding and again
  by the reset. A run ends with an exception, with \<^verbatim>\<open>st.stop()\<close> or with its page
  rendered; what is committed before an exception stays in the store.
\<close>

record widgets =
  w_sidebar :: sidebar
  w_tests :: tests_form
  w_sessions :: sessions_form
  w_reset :: bool

datatype outcome = Raised error | Stopped | Rendered page

definition run_script ::
  "clock \<Rightarrow> clock \<Rightarrow> widgets \<Rightarrow> store \<Rightarrow> session_state \<Rightarrow> store \<times> session_state \<times> outcome" where
  "run_script ck_import ck_reset w db ss =
     (case init_demo_data ck_import db of
        (db0, Some err) \<Rightarrow> (db0, ss, Raised err)
      | (db0, None) \<Rightarrow>
        (case app_layout db0 (w_sidebar w) ss of
           (ss', None) \<Rightarrow> (db0, ss', Stopped)
         | (ss', Some Strength_Tests) \<Rightarrow>
             (case ss' of
                None \<Rightarrow> (db0, ss', Raised KeyError)
              | Some su \<Rightarrow>
                (case page_strength_tests su (w_tests w) db0 of
                   (db1, Inl err) \<Rightarrow> (db1, ss', Raised err)
                 | (db1, Inr v) \<Rightarrow> (db1, ss', Rendered Strength_Tests)))
         | (ss', Some Sessions) \<Rightarrow>
             (case page_sessions (w_sessions w) db0 of
                (db1, Inl err) \<Rightarrow> (db1, ss', Raised err)
              | (db1, Inr v) \<Rightarrow> (db1, ss', Rendered Sessions))
         | (ss', Some Diagnostics) \<Rightarrow> (db0, ss', Rendered Diagnostics)
         | (ss', Some Settings) \<Rightarrow>
             (case page_settings ck_reset (w_reset w) db0 of
                (db1, Some err) \<Rightarrow> (db1, ss', Raised err)
              | (db1, None) \<Rightarrow> (db1, ss', Rendered Settings))))"

subsection \<open>Stores that only grew\<close>

text \<open>
  Every table of the second store starts with the rows of the first, unchanged and in
  place: between the two, rows were inserted and none was updated or deleted.
\<close>

definition only_appends :: "store \<Rightarrow> store \<Rightarrow> bool" where
  "only_appends db db' =
     (prefix (users db) (users db') \<and> prefix (clients db) (clients db') \<and>
      prefix (exercises db) (exercises db') \<and>
      prefix (training_plans db) (training_plans db') \<and>
      prefix (training_sessions db) (training_sessions db') \<and>
      prefix (set_prescriptions db) (set_prescriptions db') \<and>
      prefix (strength_tests db) (strength_tests db'))"

subsection \<open>A store in use\<close>

text \<open>
  The demo seed of 4 November 2026 (ordinal 739924) after some use: one session of the
  plan with one set of back squats (4 sets of 6 at 75 kg), and four strength tests, of
  which the latest bench press test records 0 kg and the last belongs to a client that
  does not exist. The concrete runs below start from it.
\<close>

definition sample_clock :: clock where
  "sample_clock = \<lparr>utcnow_coach = 0, utcnow_client = 1, today_start = 739924, today_end = 739924\<rparr>"

definition sample_store :: store where
  "sample_store =
    \<lparr>users =
       [\<lparr>user_id = 1, user_email = ''coach@example.com'', user_name = ''Coach Demo'',
         user_role = Some ''coach'', user_hash = ''demo'', user_created_at = Some 0\<rparr>,
        \<lparr>user_id = 2, user_email = ''client@example.com'', user_name = ''Client Demo'',
         user_role = Some ''client'', user_hash = ''demo'', user_created_at = Some 1\<rparr>],
     clients =
       [\<lparr>client_id = 1, client_user_id = Some 2, client_sex = Some ''female'',
         client_dob = Some 726468, client_height_cm = Some 165, client_weight_kg = Some 60,
         client_notes = Some '''', client_owner_id = Some 1\<rparr>],
     exercises =
       [\<lparr>exercise_id = 1, exercise_name = Some ''Back Squat'', exercise_category = Some ''squat'',
         exercise_equipment = Some ''barbell'', exercise_unilateral = Some False,
         exercise_description = Some ''''\<rparr>,
        \<lparr>exercise_id = 2, exercise_name = Some ''Bench Press'', exercise_category = Some ''push'',
         exercise_equipment = Some ''barbell'', exercise_unilateral = Some False,
         exercise_description = Some ''''\<rparr>,
        \<lparr>exercise_id = 3, exercise_name = Some ''Deadlift'', exercise_category = Some ''hinge'',
         exercise_equipment = Some ''barbell'', exercise_unilateral = Some False,
         exercise_description = Some ''''\<rparr>,
        \<lparr>exercise_id = 4, exercise_name = Some ''Lat Pulldown'', exercise_category = Some ''pull'',
         exercise_equipment = Some ''machine'', exercise_unilateral = Some False,
         exercise_description = Some ''''\<rparr>],
     training_plans =
       [\<lparr>plan_id = 1, plan_client_id = Some 1, plan_name = Some ''Preseason 4 weeks'',
         plan_start_date = Some 739924, plan_end_date = Some 739951,
         plan_goal = Some (''Fuerza b'' @ [CHR 0xC3, CHR 0xA1] @ ''sica'')\<rparr>],
     training_sessions =
       [\<lparr>session_id = 1, session_plan_id = Some 1, session_date = Some 739925,
         session_focus = Some ''Fuerza'', session_notes = Some ''''\<rparr>],
     set_prescriptions =
       [\<lparr>sp_id = 1, sp_session_id = Some 1, sp_exercise_id = Some 1, sp_sets = Some 4,
         sp_reps = Some 6, sp_intensity_pct_1rm = Some 75, sp_load_kg = Some 75,
         sp_rest_sec = Some 120, sp_notes = Some ''''\<rparr>],
     strength_tests =
       [\<lparr>test_id = 1, test_client_id = Some 1, test_exercise_id = Some 1,
         test_date = Some 739900, test_one_rm_kg = Some 100, test_notes = Some ''''\<rparr>,
        \<lparr>test_id = 2, test_client_id = Some 1, test_exercise_id = Some 1,
         test_date = Some 739920, test_one_rm_kg = Some 120, test_notes = Some ''''\<rparr>,
        \<lparr>test_id = 3, test_client_id = Some 1, test_exercise_id = Some 2,
         test_date = Some 739910, test_one_rm_kg = Some 0, test_notes = Some ''''\<rparr>,
        \<lparr>test_id = 4, test_client_id = Some 7, test_exercise_id = Some 1,
         test_date = Some 739923, test_one_rm_kg = Some 90, test_notes = Some ''''\<rparr>]\<rparr>"

text \<open>The widgets of the two pages as a coach leaves them, with no button pressed.\<close>

definition sample_tests_form :: tests_form where
  "sample_tests_form = \<lparr>tf_client_name = ''Client Demo'', tf_ex_name = Some ''Deadlift'',
     tf_date = 739924, tf_onerm = 140, tf_notes = '''', tf_save = False\<rparr>"

definition sample_sessions_form :: sessions_form where
  "sample_sessions_form =
     \<lparr>f_plan = (Some ''Preseason 4 weeks'', Some 739924, Some 739951),
      f_date = Some 739926, f_focus = ''Fuerza'', f_notes = '''',
      f_set = (\<lambda>sid. \<lparr>sf_ex_name = Some ''Bench Press'', sf_sets = 4, sf_reps = 6, sf_pct = 75,
                       sf_load = 60, sf_rest = 120, sf_notes = ''''\<rparr>),
      f_click = No_Click\<rparr>"

definition sample_sidebar :: sidebar where
  "sample_sidebar = \<lparr>sb_log_out = False, sb_page = Sessions, sb_email = ''coach@example.com'',
     sb_password = ''demo'', sb_sign_in = False\<rparr>"

definition sample_coach :: session_user where
  "sample_coach = \<lparr>su_id = 1, su_name = ''Coach Demo'', su_role = Some ''coach'',
     su_email = ''coach@example.com''\<rparr>"

section \<open>Properties\<close>

subsection \<open>Inserts and the seed\<close>

lemma insert_exercise_appends:
  "insert_exercise e db = Inr db' \<Longrightarrow> \<exists>xs. db' = db\<lparr>exercises := exercises db @ xs\<rparr>"
  by (auto simp: insert_exercise_def Let_def split: if_splits)

lemma insert_exercises_appends:
  "insert_exercises es db = Inr db' \<Longrightarrow> \<exists>xs. db' = db\<lparr>exercises := exercises db @ xs\<rparr>"
proof (induction es arbitrary: db)
  case Nil
  then have "db' = db\<lparr>exercises := exercises db @ []\<rparr>" by simp
  then show ?case by blast
next
  case (Cons e es)
  from Cons.prems obtain db1 where 1: "insert_exercise e db = Inr db1"
    and 2: "insert_exercises es db1 = Inr db'"
    by (auto split: sum.splits)
  from insert_exercise_appends [OF 1]
  obtain xs where xs: "db1 = db\<lparr>exercises := exercises db @ xs\<rparr>" ..
  from Cons.IH [OF 2]
  obtain ys where ys: "db' = db1\<lparr>exercises := exercises db1 @ ys\<rparr>" ..
  have "db' = db\<lparr>exercises := exercises db @ (xs @ ys)\<rparr>"
    by (simp add: xs ys)
  then show ?case by blast
qed

lemma insert_exercises_users: "insert_exercises es db = Inr db' \<Longrightarrow> users db' = users db"
  by (drule insert_exercises_appends) auto

text \<open>Whatever the seeding does, it leaves a user behind: the users are committed first.\<close>

lemma init_demo_data_users: "users (fst (init_demo_data ck db)) \<noteq> []"
  by (auto simp: init_demo_data_def insert_user_def insert_client_def insert_plan_def Let_def
      split: sum.splits prod.splits if_splits dest!: insert_exercises_users)

text \<open>
  The reset ends without an exception exactly when the end date of the plan is a date:
  today is not after 4 December 9999.
\<close>

lemma reset_database_completes:
  "snd (reset_database ck db) = None \<longleftrightarrow>
     1 \<le> today_end ck + 27 \<and> today_end ck + 27 \<le> 3652059"
  by (simp add: reset_database_def init_demo_data_def empty_store_def insert_user_def
      insert_client_def insert_plan_def insert_exercise_def demo_exercises_def next_rowid_def
      date_add_def Let_def split: if_splits)

text \<open>
  C10. Seeding is idempotent: when the store has a user row, \<open>init_demo_data\<close> returns
  the store as it is and raises nothing; so a second run after a first one, from the empty
  store as from any other, changes nothing.
\<close>

theorem init_demo_data_idempotent:
  "(users db \<noteq> [] \<longrightarrow> init_demo_data ck db = (db, None)) \<and>
   init_demo_data ck2 (fst (init_demo_data ck1 db0)) = (fst (init_demo_data ck1 db0), None)"
proof
  show "users db \<noteq> [] \<longrightarrow> init_demo_data ck db = (db, None)"
    by (simp add: init_demo_data_def)
  have "users (fst (init_demo_data ck1 db0)) \<noteq> []"
    by (rule init_demo_data_users)
  then show "init_demo_data ck2 (fst (init_demo_data ck1 db0)) = (fst (init_demo_data ck1 db0), None)"
    by (simp add: init_demo_data_def)
qed

theorem init_demo_data_idempotent_witness:
  "users sample_store \<noteq> [] \<and>
   init_demo_data sample_clock sample_store = (sample_store, None) \<and>
   fst (init_demo_data sample_clock (fst (init_demo_data sample_clock empty_store))) =
     fst (init_demo_data sample_clock empty_store)"
proof -
  have h: "users sample_store \<noteq> []"
    by (simp add: sample_store_def)
  note t = init_demo_data_idempotent [of sample_store sample_clock sample_clock sample_clock empty_store]
  from t h show ?thesis by simp
qed

text \<open>
  C6. When the reset has completed, the store is the demo seed and nothing else, whatever
  it held before: the coach and the client user, one client, four exercises, one plan from
  today to 27 days after today, and no session, set or test.
\<close>

theorem reset_database_leaves_demo_seed:
  assumes "snd (reset_database ck db) = None"
  shows "fst (reset_database ck db) =
    \<lparr>users =
       [\<lparr>user_id = 1, user_email = ''coach@example.com'', user_name = ''Coach Demo'',
         user_role = Some ''coach'', user_hash = ''demo'',
         user_created_at = Some (utcnow_coach ck)\<rparr>,
        \<lparr>user_id = 2, user_email = ''client@example.com'', user_name = ''Client Demo'',
         user_role = Some ''client'', user_hash = ''demo'',
         user_created_at = Some (utcnow_client ck)\<rparr>],
     clients =
       [\<lparr>client_id = 1, client_user_id = Some 2, client_sex = Some ''female'',
         client_dob = Some 726468, client_height_cm = Some 165, client_weight_kg = Some 60,
         client_notes = Some '''', client_owner_id = Some 1\<rparr>],
     exercises =
       [\<lparr>exercise_id = 1, exercise_name = Some ''Back Squat'', exercise_category = Some ''squat'',
         exercise_equipment = Some ''barbell'', exercise_unilateral = Some False,
         exercise_description = Some ''''\<rparr>,
        \<lparr>exercise_id = 2, exercise_name = Some ''Bench Press'', exercise_category = Some ''push'',
         exercise_equipment = Some ''barbell'', exercise_unilateral = Some False,
         exercise_description = Some ''''\<rparr>,
        \<lparr>exercise_id = 3, exercise_name = Some ''Deadlift'', exercise_category = Some ''hinge'',
         exercise_equipment = Some ''barbell'', exercise_unilateral = Some False,
         exercise_description = Some ''''\<rparr>,
        \<lparr>exercise_id = 4, exercise_name = Some ''Lat Pulldown'', exercise_category = Some ''pull'',
         exercise_equipment = Some ''machine'', exercise_unilateral = Some False,
         exercise_description = Some ''''\<rparr>],
     training_plans =
       [\<lparr>plan_id = 1, plan_client_id = Some 1, plan_name = Some ''Preseason 4 weeks'',
         plan_start_date = Some (today_start ck), plan_end_date = Some (today_end ck + 27),
         plan_goal = Some (''Fuerza b'' @ [CHR 0xC3, CHR 0xA1] @ ''sica'')\<rparr>],
     training_sessions = [], set_prescriptions = [], strength_tests = []\<rparr>"
  using assms
  by (simp add: reset_database_def init_demo_data_def empty_store_def insert_user_def
      insert_client_def insert_plan_def insert_exercise_def demo_exercises_def next_rowid_def
      date_add_def Let_def split: if_splits)

theorem reset_database_leaves_demo_seed_witness:
  "snd (reset_database sample_clock sample_store) = None \<and>
   map user_role (users (fst (reset_database sample_clock sample_store))) =
     [Some ''coach'', Some ''client''] \<and>
   length (clients (fst (reset_database sample_clock sample_store))) = 1 \<and>
   length (exercises (fst (reset_database sample_clock sample_store))) = 4 \<and>
   length (training_plans (fst (reset_database sample_clock sample_store))) = 1 \<and>
   training_sessions (fst (reset_database sample_clock sample_store)) = [] \<and>
   set_prescriptions (fst (reset_database sample_clock sample_store)) = [] \<and>
   strength_tests (fst (reset_database sample_clock sample_store)) = []"
proof -
  have h: "snd (reset_database sample_clock sample_store) = None"
    by (simp add: reset_database_completes sample_clock_def)
  from reset_database_leaves_demo_seed [OF h] h show ?thesis by simp
qed

text \<open>
  C5, at a client row that names a user which does not exist. No user of the sample store
  has key 7, so the row breaks what line 57 declares (the owner, user 1, exists); the
  insert raises nothing all the same and the row is stored, under the key 2 that no
  client had, with the \<^verbatim>\<open>user_id\<close> 7 it was given.
\<close>

theorem insert_client_dangling_user_stored:
  "get_user sample_store (Some 7) = None \<and>
   \<not> client_foreign_keys_hold sample_store
       \<lparr>client_id = 0, client_user_id = Some 7, client_sex = None, client_dob = None,
        client_height_cm = None, client_weight_kg = None, client_notes = Some '''',
        client_owner_id = Some 1\<rparr> \<and>
   2 \<notin> set (map client_id (clients sample_store)) \<and>
   insert_client \<lparr>client_id = 0, client_user_id = Some 7, client_sex = None, client_dob = None,
       client_height_cm = None, client_weight_kg = None, client_notes = Some '''',
       client_owner_id = Some 1\<rparr> sample_store =
     (2, sample_store\<lparr>clients := clients sample_store @
        [\<lparr>client_id = 2, client_user_id = Some 7, client_sex = None, client_dob = None,
          client_height_cm = None, client_weight_kg = None, client_notes = Some '''',
          client_owner_id = Some 1\<rparr>]\<rparr>)"
  by (simp add: get_user_def client_foreign_keys_hold_def insert_client_def sample_store_def
      next_rowid_def)

subsection \<open>Descending order\<close>

lemma mset_insort_desc: "mset (insort_desc k x xs) = add_mset x (mset xs)"
  by (induction xs) auto

lemma mset_order_by_desc: "mset (order_by_desc k xs) = mset xs"
  by (induction xs) (auto simp: order_by_desc_def mset_insort_desc)

lemma set_order_by_desc: "set (order_by_desc k xs) = set xs"
  by (metis mset_order_by_desc set_mset_mset)

lemma length_order_by_desc: "length (order_by_desc k xs) = length xs"
  by (metis mset_order_by_desc size_mset)

lemma insort_desc_descending:
  "sorted_wrt (\<lambda>a b. k b \<le> k a) xs \<Longrightarrow> sorted_wrt (\<lambda>a b. k b \<le> k a) (insort_desc k x xs)"
proof (induction xs)
  case Nil
  then show ?case by simp
next
  case (Cons y ys)
  show ?case
  proof (cases "k y \<le> k x")
    case True
    with Cons.prems show ?thesis by auto
  next
    case False
    then have "k x \<le> k y" by simp
    moreover have "set (insort_desc k x ys) = insert x (set ys)"
      by (metis mset_insort_desc set_mset_add_mset_insert set_mset_mset)
    ultimately show ?thesis using Cons False by auto
  qed
qed

lemma order_by_desc_descending: "sorted_wrt (\<lambda>a b. k b \<le> k a) (order_by_desc k xs)"
  by (induction xs) (auto simp: order_by_desc_def insort_desc_descending)

lemma order_by_desc_Nil_iff: "order_by_desc k xs = [] \<longleftrightarrow> xs = []"
  by (metis length_order_by_desc length_0_conv)

lemma order_by_desc_first:
  assumes "order_by_desc k xs = y # ys"
  shows "y \<in> set xs \<and> (\<forall>x\<in>set xs. k x \<le> k y)"
proof -
  have s: "set xs = insert y (set ys)"
    using set_order_by_desc [of k xs] assms by simp
  have "sorted_wrt (\<lambda>a b. k b \<le> k a) (y # ys)"
    using order_by_desc_descending [of k xs] assms by simp
  then have "\<forall>x\<in>set ys. k x \<le> k y" by simp
  with s show ?thesis by auto
qed


subsection \<open>The latest 1RM and the history of tests\<close>

text \<open>
  C3. \<open>get_latest_one_rm\<close> returns None when no strength test is of the client and the
  exercise; when one is, it returns the \<^verbatim>\<open>one_rm_kg\<close> of a test of the pair whose date
  no other test of the pair exceeds.
\<close>

theorem get_latest_one_rm_most_recent:
  "(\<not> (\<exists>t\<in>set (strength_tests db). test_client_id t = cid \<and> test_exercise_id t = Some eid)
      \<longrightarrow> get_latest_one_rm db cid eid = None) \<and>
   ((\<exists>t\<in>set (strength_tests db). test_client_id t = cid \<and> test_exercise_id t = Some eid)
      \<longrightarrow> (\<exists>t\<in>set (strength_tests db).
             test_client_id t = cid \<and> test_exercise_id t = Some eid \<and>
             (\<forall>u\<in>set (strength_tests db).
                test_client_id u = cid \<and> test_exercise_id u = Some eid
                  \<longrightarrow> test_date u \<le> test_date t) \<and>
             get_latest_one_rm db cid eid = test_one_rm_kg t))"
proof (intro conjI impI)
  let ?ms = "filter (\<lambda>t. test_client_id t = cid \<and> test_exercise_id t = Some eid) (strength_tests db)"
  assume "\<not> (\<exists>t\<in>set (strength_tests db). test_client_id t = cid \<and> test_exercise_id t = Some eid)"
  then have "?ms = []" by (simp add: filter_empty_conv)
  then show "get_latest_one_rm db cid eid = None"
    by (simp add: get_latest_one_rm_def order_by_desc_def)
next
  let ?ms = "filter (\<lambda>t. test_client_id t = cid \<and> test_exercise_id t = Some eid) (strength_tests db)"
  assume "\<exists>t\<in>set (strength_tests db). test_client_id t = cid \<and> test_exercise_id t = Some eid"
  then have "?ms \<noteq> []" by (simp add: filter_empty_conv)
  then obtain y ys where o: "order_by_desc test_date ?ms = y # ys"
    by (metis order_by_desc_Nil_iff list.exhaust)
  from order_by_desc_first [OF o]
  have y: "y \<in> set ?ms" and m: "\<forall>x\<in>set ?ms. test_date x \<le> test_date y" by simp_all
  have "get_latest_one_rm db cid eid = test_one_rm_kg y"
    by (simp add: get_latest_one_rm_def o)
  with y m show "\<exists>t\<in>set (strength_tests db).
           test_client_id t = cid \<and> test_exercise_id t = Some eid \<and>
           (\<forall>u\<in>set (strength_tests db).
              test_client_id u = cid \<and> test_exercise_id u = Some eid
                \<longrightarrow> test_date u \<le> test_date t) \<and>
           get_latest_one_rm db cid eid = test_one_rm_kg t"
    by auto
qed

text \<open>
  In the sample store the client has two back squat tests, of which the later records
  120 kg, and no deadlift test.
\<close>

theorem get_latest_one_rm_most_recent_witness:
  "(\<exists>t\<in>set (strength_tests sample_store). test_client_id t = Some 1 \<and> test_exercise_id t = Some 1) \<and>
   (\<exists>t\<in>set (strength_tests sample_store).
      test_client_id t = Some 1 \<and> test_exercise_id t = Some 1 \<and>
      (\<forall>u\<in>set (strength_tests sample_store).
         test_client_id u = Some 1 \<and> test_exercise_id u = Some 1 \<longrightarrow> test_date u \<le> test_date t) \<and>
      get_latest_one_rm sample_store (Some 1) 1 = test_one_rm_kg t) \<and>
   get_latest_one_rm sample_store (Some 1) 1 = Some 120 \<and>
   \<not> (\<exists>t\<in>set (strength_tests sample_store). test_client_id t = Some 1 \<and> test_exercise_id t = Some 3) \<and>
   get_latest_one_rm sample_store (Some 1) 3 = None"
proof -
  have h1: "\<exists>t\<in>set (strength_tests sample_store). test_client_id t = Some 1 \<and> test_exercise_id t = Some 1"
    by (simp add: sample_store_def)
  have h3: "\<not> (\<exists>t\<in>set (strength_tests sample_store). test_client_id t = Some 1 \<and> test_exercise_id t = Some 3)"
    by (simp add: sample_store_def)
  have v: "get_latest_one_rm sample_store (Some 1) 1 = Some 120"
    by (simp add: get_latest_one_rm_def sample_store_def order_by_desc_def)
  note t1 = get_latest_one_rm_most_recent [of sample_store "Some 1" 1, THEN conjunct2, rule_format, OF h1]
  note t3 = get_latest_one_rm_most_recent [of sample_store "Some 1" 3, THEN conjunct1, rule_format, OF h3]
  from h1 h3 v t1 t3 show ?thesis by (intro conjI)
qed


text \<open>
  The history is written in full when every test listed has its exercise row and a 1RM,
  as every test saved by the page has.
\<close>

lemma write_history_total:
  "\<forall>t\<in>set ts. get_exercise db (test_exercise_id t) \<noteq> None \<and> test_one_rm_kg t \<noteq> None \<Longrightarrow>
   \<exists>ls. write_history db ts = Inr ls"
  by (induction ts) auto



subsection \<open>Tonnage\<close>


lemma show_sets_total:
  "\<forall>sp\<in>set sps. get_exercise db (sp_exercise_id sp) \<noteq> None \<and> sp_load_kg sp \<noteq> None \<Longrightarrow>
   show_sets db sps acc = Inr (acc + sum_list (map tonnage sps))"
  by (induction sps arbitrary: acc) (auto simp: add.assoc)



subsection \<open>The default of the 1RM field\<close>

text \<open>
  C4, in the sample store. The latest bench press test of the client of the plan records
  0 kg: \<open>get_latest_one_rm\<close> returns that 0, and the 1RM field of the session starts at
  100 all the same, as it does when the client has no test of the exercise.
\<close>

theorem one_rm_default_zero_test:
  "(\<exists>t\<in>set (strength_tests sample_store). test_client_id t = Some 1 \<and> test_exercise_id t = Some 2) \<and>
   get_latest_one_rm sample_store (Some 1) 2 = Some 0 \<and>
   one_rm_default (get_latest_one_rm sample_store (Some 1) 2) = 100 \<and>
   page_sessions sample_sessions_form sample_store =
     (sample_store,
      Inr (Session_List
        [\<lparr>sv_session = \<lparr>session_id = 1, session_plan_id = Some 1, session_date = Some 739925,
             session_focus = Some ''Fuerza'', session_notes = Some ''''\<rparr>,
          sv_one_rm_default = 100, sv_tonnage = 1800\<rparr>]))"
  by (simp add: page_sessions_def sample_sessions_form_def sample_store_def plan_map_def
      get_plan_def exercise_map_def session_tonnage_def get_exercise_def tonnage_def py_or_def
      Let_def get_latest_one_rm_def order_by_desc_def get_client_id_from_plan_def
      one_rm_default_def)

subsection \<open>The gate\<close>

lemma login_authenticates: "login db sb None = Some su \<Longrightarrow> authenticated_by db sb su"
  by (auto simp: login_def authenticated_by_def find_Some_iff split: if_splits option.splits)

lemma app_layout_diagnostics:
  "sb_page sb = Diagnostics \<Longrightarrow> snd (app_layout db sb ss) = Some Diagnostics"
  by (simp add: app_layout_def Let_def)

lemma app_layout_gated:
  "snd (app_layout db sb ss) = Some p \<Longrightarrow> p \<noteq> Diagnostics \<Longrightarrow>
   ss \<noteq> None \<and> \<not> sb_log_out sb \<and> fst (app_layout db sb ss) = ss"
  by (auto simp: app_layout_def require_auth_def Let_def split: if_splits option.splits)

lemma app_layout_session:
  assumes "fst (app_layout db sb ss) = Some su"
  shows "ss = Some su \<or> authenticated_by db sb su"
proof (cases "ss \<noteq> None \<and> \<not> sb_log_out sb")
  case True
  with assms have "ss = Some su"
    by (auto simp: app_layout_def require_auth_def Let_def split: if_splits option.splits)
  then show ?thesis ..
next
  case False
  with assms have "login db sb None = Some su"
    by (auto simp: app_layout_def require_auth_def Let_def split: if_splits option.splits)
  then have "authenticated_by db sb su"
    by (rule login_authenticates)
  then show ?thesis ..
qed

lemma layout_runs_session:
  "layout_runs rs ss = Some su \<Longrightarrow>
   ss = Some su \<or> (\<exists>(db, sb)\<in>set rs. authenticated_by db sb su)"
proof (induction rs arbitrary: ss)
  case Nil
  then show ?case by simp
next
  case (Cons r rs)
  obtain db sb where r: "r = (db, sb)" by (cases r)
  from Cons.prems have "layout_runs rs (fst (app_layout db sb ss)) = Some su"
    by (simp add: r)
  from Cons.IH [OF this]
  show ?case
  proof
    assume "fst (app_layout db sb ss) = Some su"
    from app_layout_session [OF this] show ?thesis by (auto simp: r)
  next
    assume "\<exists>(db, sb)\<in>set rs. authenticated_by db sb su"
    then show ?thesis by auto
  qed
qed

lemma run_script_gated:
  assumes r: "run_script cki ckr w db ss = (db', ss', Rendered p)" and p: "p \<noteq> Diagnostics"
  shows "ss' \<noteq> None \<and> ss' = ss"
proof -
  obtain db0 where i: "init_demo_data cki db = (db0, None)"
    using r by (auto simp: run_script_def split: prod.splits option.splits)
  obtain q where a: "app_layout db0 (w_sidebar w) ss = (ss', Some q)"
    using r i by (auto simp: run_script_def split: prod.splits option.splits page.splits sum.splits)
  have "q = p"
    using r i a by (auto simp: run_script_def split: prod.splits option.splits page.splits sum.splits)
  with a p app_layout_gated [of db0 "w_sidebar w" ss p] show ?thesis by simp
qed

lemma run_script_diagnostics:
  assumes i: "snd (init_demo_data cki db) = None" and d: "sb_page (w_sidebar w) = Diagnostics"
  shows "snd (snd (run_script cki ckr w db ss)) = Rendered Diagnostics"
proof -
  obtain db0 where i0: "init_demo_data cki db = (db0, None)"
    using i by (cases "init_demo_data cki db") auto
  obtain ss' where "app_layout db0 (w_sidebar w) ss = (ss', Some Diagnostics)"
    using app_layout_diagnostics [OF d, of db0 ss] by (cases "app_layout db0 (w_sidebar w) ss") auto
  then show ?thesis by (simp add: run_script_def i0)
qed

text \<open>
  C8. In every run, whatever the state it starts from: when the page chosen is Diagnostics
  the layout calls it, with or without a user in the session state. The layout calls
  another page only when the session state held a user before the run and the log-out
  button was not pressed, and that user is still there when the page is called. The user
  a run leaves in the session state is the one it found there or one it has signed in; so
  at every run of a browser session, which starts with an empty session state, a page
  other than Diagnostics is called only with a user in place that an earlier run of the
  session signed in. The whole script does the same: it renders Diagnostics once the
  seeding has raised nothing, and a run that ends with another page rendered had a user in
  the session state from start to end.
\<close>

theorem pages_gated_except_diagnostics:
  "(sb_page sb = Diagnostics \<longrightarrow> snd (app_layout db sb ss) = Some Diagnostics) \<and>
   (snd (app_layout db sb ss) = Some p \<and> p \<noteq> Diagnostics
      \<longrightarrow> ss \<noteq> None \<and> \<not> sb_log_out sb \<and> fst (app_layout db sb ss) = ss) \<and>
   (fst (app_layout db sb ss) = Some su \<longrightarrow> ss = Some su \<or> authenticated_by db sb su) \<and>
   (snd (app_layout db sb (layout_runs rs None)) = Some p \<and> p \<noteq> Diagnostics
      \<longrightarrow> (\<exists>su. layout_runs rs None = Some su \<and>
               (\<exists>(db0, sb0)\<in>set rs. authenticated_by db0 sb0 su))) \<and>
   (snd (init_demo_data cki db) = None \<and> sb_page (w_sidebar w) = Diagnostics
      \<longrightarrow> snd (snd (run_script cki ckr w db ss)) = Rendered Diagnostics) \<and>
   (run_script cki ckr w db ss = (db', ss', Rendered p) \<and> p \<noteq> Diagnostics
      \<longrightarrow> ss' \<noteq> None \<and> ss' = ss)"
proof (intro conjI impI)
  assume "sb_page sb = Diagnostics"
  then show "snd (app_layout db sb ss) = Some Diagnostics"
    by (rule app_layout_diagnostics)
next
  assume a: "snd (app_layout db sb ss) = Some p \<and> p \<noteq> Diagnostics"
  have "ss \<noteq> None \<and> \<not> sb_log_out sb \<and> fst (app_layout db sb ss) = ss"
    by (rule app_layout_gated [OF conjunct1 [OF a] conjunct2 [OF a]])
  then show "ss \<noteq> None" and "\<not> sb_log_out sb" and "fst (app_layout db sb ss) = ss"
    by blast+
next
  assume "fst (app_layout db sb ss) = Some su"
  then show "ss = Some su \<or> authenticated_by db sb su"
    by (rule app_layout_session)
next
  assume a: "snd (app_layout db sb (layout_runs rs None)) = Some p \<and> p \<noteq> Diagnostics"
  have "layout_runs rs None \<noteq> None"
    using app_layout_gated [OF conjunct1 [OF a] conjunct2 [OF a]] by blast
  then obtain su where su: "layout_runs rs None = Some su" by blast
  from layout_runs_session [OF su]
  have "\<exists>(db0, sb0)\<in>set rs. authenticated_by db0 sb0 su" by simp
  with su show "\<exists>su. layout_runs rs None = Some su \<and>
      (\<exists>(db0, sb0)\<in>set rs. authenticated_by db0 sb0 su)"
    by blast
next
  assume a: "snd (init_demo_data cki db) = None \<and> sb_page (w_sidebar w) = Diagnostics"
  show "snd (snd (run_script cki ckr w db ss)) = Rendered Diagnostics"
    by (rule run_script_diagnostics [OF conjunct1 [OF a] conjunct2 [OF a]])
next
  assume a: "run_script cki ckr w db ss = (db', ss', Rendered p) \<and> p \<noteq> Diagnostics"
  have "ss' \<noteq> None \<and> ss' = ss"
    by (rule run_script_gated [OF conjunct1 [OF a] conjunct2 [OF a]])
  then show "ss' \<noteq> None" and "ss' = ss" by blast+
qed

text \<open>
  From the sample store: with no user in the session state the Diagnostics page is called
  and the Sessions page is not, the run being stopped; with the coach in the session
  state the Sessions page is called; and in the browser session whose first run signs the
  coach in, the second run calls the Sessions page.
\<close>

theorem pages_gated_except_diagnostics_witness:
  "sb_page (sample_sidebar\<lparr>sb_page := Diagnostics\<rparr>) = Diagnostics \<and>
   snd (app_layout sample_store (sample_sidebar\<lparr>sb_page := Diagnostics\<rparr>) None) = Some Diagnostics \<and>
   snd (app_layout sample_store sample_sidebar None) = None \<and>
   snd (app_layout sample_store sample_sidebar (Some sample_coach)) = Some Sessions \<and>
   Sessions \<noteq> Diagnostics \<and>
   fst (app_layout sample_store sample_sidebar (Some sample_coach)) = Some sample_coach \<and>
   layout_runs [(sample_store, sample_sidebar\<lparr>sb_sign_in := True\<rparr>)] None = Some sample_coach \<and>
   snd (app_layout sample_store sample_sidebar
          (layout_runs [(sample_store, sample_sidebar\<lparr>sb_sign_in := True\<rparr>)] None)) =
     Some Sessions \<and>
   authenticated_by sample_store (sample_sidebar\<lparr>sb_sign_in := True\<rparr>) sample_coach"
proof -
  let ?rs = "[(sample_store, sample_sidebar\<lparr>sb_sign_in := True\<rparr>)]"
  have d: "sb_page (sample_sidebar\<lparr>sb_page := Diagnostics\<rparr>) = Diagnostics"
    by simp
  have s: "snd (app_layout sample_store sample_sidebar (Some sample_coach)) = Some Sessions \<and>
      Sessions \<noteq> Diagnostics"
    by (simp add: app_layout_def sample_sidebar_def Let_def)
  have n: "snd (app_layout sample_store sample_sidebar None) = None"
    by (simp add: app_layout_def require_auth_def login_def sample_sidebar_def Let_def)
  have l: "layout_runs ?rs None = Some sample_coach"
    by (simp add: app_layout_def require_auth_def login_def sample_sidebar_def sample_store_def
        sample_coach_def Let_def)
  have r: "snd (app_layout sample_store sample_sidebar (layout_runs ?rs None)) = Some Sessions \<and>
      Sessions \<noteq> Diagnostics"
    unfolding l by (rule s)
  note t1 = pages_gated_except_diagnostics
    [of "sample_sidebar\<lparr>sb_page := Diagnostics\<rparr>" sample_store None, THEN conjunct1, rule_format, OF d]
  note t2 = pages_gated_except_diagnostics
    [of sample_sidebar sample_store "Some sample_coach" Sessions,
     THEN conjunct2, THEN conjunct1, rule_format, OF s]
  note t4 = pages_gated_except_diagnostics
    [of sample_sidebar sample_store _ Sessions _ ?rs,
     THEN conjunct2, THEN conjunct2, THEN conjunct2, THEN conjunct1, rule_format, OF r]
  from t4 l have a: "authenticated_by sample_store (sample_sidebar\<lparr>sb_sign_in := True\<rparr>) sample_coach"
    by simp
  from d t1 n s t2 l r a show ?thesis by simp
qed

subsection \<open>What a run does to the store\<close>

lemma only_appends_refl: "only_appends db db"
  by (simp add: only_appends_def)

lemma only_appends_trans: "only_appends a b \<Longrightarrow> only_appends b c \<Longrightarrow> only_appends a c"
  unfolding only_appends_def by (meson prefix_order.order_trans)

lemma save_test_row:
  "\<exists>t. save_test cid eid f db = db\<lparr>strength_tests := strength_tests db @ [t]\<rparr> \<and>
    test_client_id t = Some cid \<and> test_exercise_id t = Some eid \<and>
    test_date t = Some (tf_date f) \<and> test_one_rm_kg t = Some (tf_onerm f)"
  by (rule exI [of _ "\<lparr>test_id = next_rowid (map test_id (strength_tests db)),
        test_client_id = Some cid, test_exercise_id = Some eid, test_date = Some (tf_date f),
        test_one_rm_kg = Some (tf_onerm f), test_notes = Some (tf_notes f)\<rparr>"])
     (simp add: save_test_def insert_strength_test_def Let_def)

lemma add_session_row:
  "\<exists>s. add_session plan f db = db\<lparr>training_sessions := training_sessions db @ [s]\<rparr> \<and>
    session_plan_id s = Some (plan_id plan) \<and> session_date s = f_date f"
  by (rule exI [of _ "\<lparr>session_id = next_rowid (map session_id (training_sessions db)),
        session_plan_id = Some (plan_id plan), session_date = f_date f,
        session_focus = Some (f_focus f), session_notes = Some (f_notes f)\<rparr>"])
     (simp add: add_session_def insert_session_def Let_def)

lemma add_set_row:
  "\<exists>sp. add_set s ex_id w db = db\<lparr>set_prescriptions := set_prescriptions db @ [sp]\<rparr> \<and>
    sp_session_id sp = Some (session_id s) \<and> sp_exercise_id sp = Some ex_id \<and>
    sp_sets sp = Some (sf_sets w) \<and> sp_reps sp = Some (sf_reps w) \<and>
    sp_load_kg sp = Some (sf_load w)"
  by (rule exI [of _ "\<lparr>sp_id = next_rowid (map sp_id (set_prescriptions db)),
        sp_session_id = Some (session_id s), sp_exercise_id = Some ex_id,
        sp_sets = Some (sf_sets w), sp_reps = Some (sf_reps w),
        sp_intensity_pct_1rm = Some (real_of_int (sf_pct w)), sp_load_kg = Some (sf_load w),
        sp_rest_sec = Some (sf_rest w), sp_notes = Some (sf_notes w)\<rparr>"])
     (simp add: add_set_def insert_set_prescription_def Let_def)

lemma page_strength_tests_store:
  "fst (page_strength_tests su f db) = db \<or>
   (tf_save f \<and> (\<exists>cid eid. fst (page_strength_tests su f db) = save_test cid eid f db))"
  by (auto simp: page_strength_tests_def Let_def split: if_splits sum.splits option.splits)

lemma page_strength_tests_saved:
  "page_strength_tests su f db = (db', Inr (History ls)) \<Longrightarrow> tf_save f \<Longrightarrow>
   \<exists>cid eid. db' = save_test cid eid f db"
  by (auto simp: page_strength_tests_def Let_def split: if_splits sum.splits option.splits)

lemma session_blocks_Cons_store:
  "fst (session_blocks plan f exmap (s # ss) db) =
     (case exmap (sf_ex_name (f_set f (session_id s))) of
        None \<Rightarrow> db
      | Some ex_id \<Rightarrow>
          (case session_tonnage
                  (if f_click f = Add_Set (session_id s)
                   then add_set s ex_id (f_set f (session_id s)) db else db) (session_id s) of
             Inl err \<Rightarrow> (if f_click f = Add_Set (session_id s)
                         then add_set s ex_id (f_set f (session_id s)) db else db)
           | Inr shown \<Rightarrow>
               fst (session_blocks plan f exmap ss
                 (if f_click f = Add_Set (session_id s)
                  then add_set s ex_id (f_set f (session_id s)) db else db))))"
  by (simp add: Let_def split: option.splits sum.splits prod.splits)

lemma session_blocks_no_click:
  "\<forall>s\<in>set ss. f_click f \<noteq> Add_Set (session_id s) \<Longrightarrow>
   fst (session_blocks plan f exmap ss db) = db"
proof (induction ss arbitrary: db)
  case Nil
  then show ?case by simp
next
  case (Cons s ss)
  then show ?case
    by (simp only: session_blocks_Cons_store) (simp split: option.splits sum.splits)
qed

lemma session_blocks_store:
  "distinct (map session_id ss) \<Longrightarrow>
   fst (session_blocks plan f exmap ss db) = db \<or>
   (\<exists>s\<in>set ss. \<exists>ex_id. f_click f = Add_Set (session_id s) \<and>
      fst (session_blocks plan f exmap ss db) = add_set s ex_id (f_set f (session_id s)) db)"
proof (induction ss arbitrary: db)
  case Nil
  then show ?case by simp
next
  case (Cons s ss)
  show ?case
  proof (cases "f_click f = Add_Set (session_id s)")
    case False
    then have "fst (session_blocks plan f exmap (s # ss) db) = db \<or>
      fst (session_blocks plan f exmap (s # ss) db) = fst (session_blocks plan f exmap ss db)"
      by (simp only: session_blocks_Cons_store) (simp split: option.splits sum.splits)
    then show ?thesis
    proof
      assume "fst (session_blocks plan f exmap (s # ss) db) = db"
      then show ?thesis ..
    next
      assume eq: "fst (session_blocks plan f exmap (s # ss) db) =
        fst (session_blocks plan f exmap ss db)"
      from Cons.prems have "distinct (map session_id ss)" by simp
      from Cons.IH [OF this, of db] show ?thesis
        unfolding eq by auto
    qed
  next
    case True
    with Cons.prems have "\<forall>x\<in>set ss. f_click f \<noteq> Add_Set (session_id x)" by auto
    then have rest: "\<And>d. fst (session_blocks plan f exmap ss d) = d"
      by (rule session_blocks_no_click)
    have "fst (session_blocks plan f exmap (s # ss) db) = db \<or>
       (\<exists>ex_id. fst (session_blocks plan f exmap (s # ss) db) =
          add_set s ex_id (f_set f (session_id s)) db)"
      using True
      by (simp only: session_blocks_Cons_store rest) (auto split: option.splits sum.splits)
    with True show ?thesis by auto
  qed
qed

lemma session_blocks_views:
  "session_blocks plan f exmap ss db = (db', Inr vs) \<Longrightarrow> map sv_session vs = ss"
proof (induction ss arbitrary: db db' vs)
  case Nil
  then show ?case by simp
next
  case (Cons s ss)
  from Cons.prems obtain d d' v vs' where "session_blocks plan f exmap ss d = (d', Inr vs')"
    and "vs = v # vs'" and "sv_session v = s"
    by (auto simp: Let_def split: option.splits sum.splits prod.splits)
  with Cons.IH [of d d' vs'] show ?case by simp
qed

lemma session_blocks_added:
  "session_blocks plan f exmap ss db = (db', Inr vs) \<Longrightarrow> distinct (map session_id ss) \<Longrightarrow>
   s \<in> set ss \<Longrightarrow> f_click f = Add_Set (session_id s) \<Longrightarrow>
   \<exists>ex_id. exmap (sf_ex_name (f_set f (session_id s))) = Some ex_id \<and>
      db' = add_set s ex_id (f_set f (session_id s)) db"
proof (induction ss arbitrary: db db' vs)
  case Nil
  then show ?case by simp
next
  case (Cons x ss)
  from Cons.prems(1) obtain ex_id vs' where
    ex: "exmap (sf_ex_name (f_set f (session_id x))) = Some ex_id" and
    rest: "session_blocks plan f exmap ss (if f_click f = Add_Set (session_id x)
             then add_set x ex_id (f_set f (session_id x)) db else db) = (db', Inr vs')"
    by (auto simp: Let_def split: option.splits sum.splits prod.splits)
  show ?case
  proof (cases "session_id x = session_id s")
    case True
    with Cons.prems have xs: "x = s" by (auto simp: image_iff)
    from Cons.prems True have "\<forall>y\<in>set ss. f_click f \<noteq> Add_Set (session_id y)"
      by (auto simp: image_iff)
    from session_blocks_no_click [OF this, of plan exmap "add_set x ex_id (f_set f (session_id x)) db"]
      rest Cons.prems(4) True
    have "db' = add_set x ex_id (f_set f (session_id x)) db" by simp
    with xs ex show ?thesis by blast
  next
    case False
    with Cons.prems have "s \<in> set ss" and "distinct (map session_id ss)"
      and "f_click f \<noteq> Add_Set (session_id x)" by auto
    with rest Cons.IH [of db db' vs'] Cons.prems(4) show ?thesis by simp
  qed
qed

lemma distinct_ids_sorted_filter:
  "distinct (map f xs) \<Longrightarrow> distinct (map f (sort_key k (filter P xs)))"
  by (simp add: distinct_map inj_on_def)

lemma page_sessions_store_eq:
  "fst (page_sessions f db) =
     (if training_plans db = [] then db
      else case plan_map (training_plans db) (f_plan f) of
        None \<Rightarrow> db
      | Some pk \<Rightarrow>
        (case get_plan db (Some pk) of
           None \<Rightarrow> db
         | Some plan \<Rightarrow>
             fst (session_blocks plan f
               (exercise_map (exercises
                  (if f_click f = Add_Session then add_session plan f db else db)))
               (sort_key session_date (filter (\<lambda>s. session_plan_id s = Some (plan_id plan))
                  (training_sessions
                     (if f_click f = Add_Session then add_session plan f db else db))))
               (if f_click f = Add_Session then add_session plan f db else db))))"
  by (simp add: page_sessions_def Let_def split: option.splits prod.splits sum.splits)

lemma page_sessions_blocks:
  "fst (page_sessions f db) = db \<or>
   (\<exists>plan. fst (page_sessions f db) =
      fst (session_blocks plan f
        (exercise_map (exercises (if f_click f = Add_Session then add_session plan f db else db)))
        (sort_key session_date (filter (\<lambda>s. session_plan_id s = Some (plan_id plan))
           (training_sessions (if f_click f = Add_Session then add_session plan f db else db))))
        (if f_click f = Add_Session then add_session plan f db else db)))"
  unfolding page_sessions_store_eq by (simp split: option.splits) blast

lemma page_sessions_store:
  assumes "distinct (map session_id (training_sessions db))"
  shows "fst (page_sessions f db) = db \<or>
    (f_click f = Add_Session \<and> (\<exists>plan. fst (page_sessions f db) = add_session plan f db)) \<or>
    (\<exists>s\<in>set (training_sessions db). \<exists>ex_id. f_click f = Add_Set (session_id s) \<and>
        fst (page_sessions f db) = add_set s ex_id (f_set f (session_id s)) db)"
proof (cases "f_click f = Add_Session")
  case True
  then have "\<And>ss. \<forall>s\<in>set ss. f_click f \<noteq> Add_Set (session_id s)" by simp
  then have "\<And>plan exmap ss d. fst (session_blocks plan f exmap ss d) = d"
    by (rule session_blocks_no_click)
  with page_sessions_blocks [of f db] True show ?thesis by auto
next
  case False
  from page_sessions_blocks [of f db] show ?thesis
  proof
    assume "fst (page_sessions f db) = db"
    then show ?thesis ..
  next
    assume "\<exists>plan. fst (page_sessions f db) =
      fst (session_blocks plan f
        (exercise_map (exercises (if f_click f = Add_Session then add_session plan f db else db)))
        (sort_key session_date (filter (\<lambda>s. session_plan_id s = Some (plan_id plan))
           (training_sessions (if f_click f = Add_Session then add_session plan f db else db))))
        (if f_click f = Add_Session then add_session plan f db else db))"
    with False obtain plan where eq: "fst (page_sessions f db) =
      fst (session_blocks plan f (exercise_map (exercises db))
        (sort_key session_date (filter (\<lambda>s. session_plan_id s = Some (plan_id plan))
           (training_sessions db))) db)"
      by auto
    let ?ss = "sort_key session_date (filter (\<lambda>s. session_plan_id s = Some (plan_id plan))
           (training_sessions db))"
    have "distinct (map session_id ?ss)"
      using assms by (rule distinct_ids_sorted_filter)
    from session_blocks_store [OF this, of plan f "exercise_map (exercises db)" db]
    have "fst (page_sessions f db) = db \<or>
      (\<exists>s\<in>set ?ss. \<exists>ex_id. f_click f = Add_Set (session_id s) \<and>
         fst (page_sessions f db) = add_set s ex_id (f_set f (session_id s)) db)"
      unfolding eq .
    then show ?thesis by auto
  qed
qed

lemma page_sessions_session_added:
  assumes "page_sessions f db = (db', Inr (Session_List vs))" and "f_click f = Add_Session"
  shows "\<exists>plan. db' = add_session plan f db"
proof -
  have "\<And>ss. \<forall>s\<in>set ss. f_click f \<noteq> Add_Set (session_id s)"
    using assms(2) by simp
  then have nc: "\<And>plan exmap ss d. fst (session_blocks plan f exmap ss d) = d"
    by (rule session_blocks_no_click)
  from assms obtain plan exmap ss vs' where
    "session_blocks plan f exmap ss (add_session plan f db) = (db', Inr vs')"
    by (auto simp: page_sessions_def Let_def split: option.splits prod.splits sum.splits if_splits)
  then have "fst (session_blocks plan f exmap ss (add_session plan f db)) = db'" by simp
  with nc show ?thesis by auto
qed

lemma page_sessions_set_added:
  assumes "page_sessions f db = (db', Inr (Session_List vs))"
    and "f_click f = Add_Set sid" and "sid \<in> session_id ` sv_session ` set vs"
    and "distinct (map session_id (training_sessions db))"
  shows "\<exists>s\<in>set (training_sessions db). \<exists>ex_id. session_id s = sid \<and>
           db' = add_set s ex_id (f_set f sid) db"
proof -
  from assms(1,2) obtain plan where sb: "session_blocks plan f (exercise_map (exercises db))
      (sort_key session_date (filter (\<lambda>s. session_plan_id s = Some (plan_id plan))
           (training_sessions db))) db = (db', Inr vs)"
    by (auto simp: page_sessions_def Let_def split: option.splits prod.splits sum.splits if_splits)
  let ?ss = "sort_key session_date (filter (\<lambda>s. session_plan_id s = Some (plan_id plan))
           (training_sessions db))"
  have d: "distinct (map session_id ?ss)"
    using assms(4) by (rule distinct_ids_sorted_filter)
  from session_blocks_views [OF sb] have "sv_session ` set vs = set ?ss"
    by (metis set_map)
  with assms(3) obtain s where s: "s \<in> set ?ss" and sid: "session_id s = sid" by auto
  from session_blocks_added [OF sb d s] assms(2) sid
  obtain ex_id where "db' = add_set s ex_id (f_set f (session_id s)) db" by auto
  with s sid show ?thesis by auto
qed

lemma only_appends_save_test: "only_appends db (save_test cid eid f db)"
  by (simp add: only_appends_def save_test_def insert_strength_test_def Let_def)

lemma only_appends_add_session: "only_appends db (add_session plan f db)"
  by (simp add: only_appends_def add_session_def insert_session_def Let_def)

lemma only_appends_add_set: "only_appends db (add_set s ex_id w db)"
  by (simp add: only_appends_def add_set_def insert_set_prescription_def Let_def)

lemma only_appends_page_strength_tests: "only_appends db (fst (page_strength_tests su f db))"
  using page_strength_tests_store [of su f db]
  by (auto simp: only_appends_refl only_appends_save_test)

lemma only_appends_session_blocks: "only_appends db (fst (session_blocks plan f exmap ss db))"
proof (induction ss arbitrary: db)
  case Nil
  show ?case by (simp add: only_appends_refl)
next
  case (Cons s ss)
  have step: "\<And>ex_id. only_appends db
      (if f_click f = Add_Set (session_id s) then add_set s ex_id (f_set f (session_id s)) db else db)"
    by (simp add: only_appends_refl only_appends_add_set)
  show ?case
    unfolding session_blocks_Cons_store
    by (auto split: option.splits sum.splits
        intro: only_appends_refl only_appends_add_set only_appends_trans [OF step Cons.IH]
               only_appends_trans [OF only_appends_add_set Cons.IH] Cons.IH)
qed

lemma only_appends_page_sessions: "only_appends db (fst (page_sessions f db))"
  unfolding page_sessions_store_eq
  by (auto split: option.splits
      intro: only_appends_refl only_appends_session_blocks
             only_appends_trans [OF only_appends_add_session only_appends_session_blocks])

lemma only_appends_init_demo_data: "only_appends db (fst (init_demo_data ck db))"
proof (cases "users db = []")
  case False
  then show ?thesis by (simp add: init_demo_data_def only_appends_refl)
next
  case True
  show ?thesis
    by (auto simp: init_demo_data_def insert_user_def insert_client_def insert_plan_def Let_def
        only_appends_def
        split: sum.splits prod.splits if_splits dest!: insert_exercises_appends)
qed

lemma run_script_store_eq:
  "fst (run_script cki ckr w db ss) =
     (case init_demo_data cki db of
        (db0, Some err) \<Rightarrow> db0
      | (db0, None) \<Rightarrow>
        (case app_layout db0 (w_sidebar w) ss of
           (ss', None) \<Rightarrow> db0
         | (ss', Some Strength_Tests) \<Rightarrow>
             (case ss' of None \<Rightarrow> db0
              | Some su \<Rightarrow> fst (page_strength_tests su (w_tests w) db0))
         | (ss', Some Sessions) \<Rightarrow> fst (page_sessions (w_sessions w) db0)
         | (ss', Some Diagnostics) \<Rightarrow> db0
         | (ss', Some Settings) \<Rightarrow> fst (page_settings ckr (w_reset w) db0)))"
  by (simp add: run_script_def split: prod.splits option.splits page.splits sum.splits)

lemma only_appends_run_script:
  assumes "\<not> (w_reset w \<and> sb_page (w_sidebar w) = Settings)"
  shows "only_appends db (fst (run_script cki ckr w db ss))"
proof -
  obtain db0 e where i: "init_demo_data cki db = (db0, e)"
    by (cases "init_demo_data cki db")
  obtain ss' q where a: "app_layout db0 (w_sidebar w) ss = (ss', q)"
    by (cases "app_layout db0 (w_sidebar w) ss")
  have 0: "only_appends db db0"
    using only_appends_init_demo_data [of db cki] i by simp
  have 1: "\<And>su. only_appends db (fst (page_strength_tests su (w_tests w) db0))"
    by (rule only_appends_trans [OF 0 only_appends_page_strength_tests])
  have 2: "only_appends db (fst (page_sessions (w_sessions w) db0))"
    by (rule only_appends_trans [OF 0 only_appends_page_sessions])
  have 3: "q = Some Settings \<Longrightarrow> fst (page_settings ckr (w_reset w) db0) = db0"
    using assms a
    by (auto simp: page_settings_def app_layout_def Let_def split: if_splits prod.splits)
  show ?thesis
    using 0 1 2 3 by (simp add: run_script_store_eq i a split: option.splits page.splits)
qed

text \<open>When a button does insert its row.\<close>

lemma fold_upd_Some:
  "fold (\<lambda>x m. m(k x \<mapsto> v x)) xs m0 l = Some i \<Longrightarrow>
   m0 l = Some i \<or> (\<exists>x\<in>set xs. k x = l \<and> v x = i)"
proof (induction xs arbitrary: m0)
  case Nil
  then show ?case by simp
next
  case (Cons x xs)
  from Cons.prems have "fold (\<lambda>x m. m(k x \<mapsto> v x)) xs (m0(k x \<mapsto> v x)) l = Some i"
    by (simp only: fold_simps)
  from Cons.IH [OF this] show ?case
    by (auto split: if_splits)
qed

lemma plan_map_get_plan:
  assumes "plan_map (training_plans db) l = Some pk"
  shows "\<exists>plan. get_plan db (Some pk) = Some plan \<and> plan_id plan = pk"
proof -
  from assms have "\<exists>p\<in>set (training_plans db). plan_id p = pk"
    unfolding plan_map_def
    using fold_upd_Some [of "\<lambda>p. (plan_name p, plan_start_date p, plan_end_date p)" plan_id
        "training_plans db" Map.empty l pk]
    by auto
  then have "find (\<lambda>p. plan_id p = pk) (training_plans db) \<noteq> None"
    by (auto simp: find_None_iff)
  then obtain plan where f: "find (\<lambda>p. plan_id p = pk) (training_plans db) = Some plan"
    by blast
  then have "plan_id plan = pk"
    by (auto simp: find_Some_iff)
  with f show ?thesis by (simp add: get_plan_def)
qed

lemma exercise_map_get_exercise:
  assumes "exercise_map (exercises db) k = Some i"
  shows "get_exercise db (Some i) \<noteq> None"
proof -
  from assms have "\<exists>e\<in>set (exercises db). exercise_id e = i"
    unfolding exercise_map_def
    using fold_upd_Some [of exercise_name exercise_id "exercises db" Map.empty k i]
    by auto
  then show ?thesis
    by (auto simp: get_exercise_def find_None_iff)
qed

lemma page_strength_tests_saves:
  assumes "tf_save f"
    and "filter (\<lambda>c. client_owner_id c = Some (su_id su)) (clients db) \<noteq> []"
    and "client_map db (filter (\<lambda>c. client_owner_id c = Some (su_id su)) (clients db)) Map.empty
           = Inr cmap"
    and "exercises db \<noteq> []"
    and "cmap (tf_client_name f) = Some cid"
    and "exercise_map (exercises db) (tf_ex_name f) = Some eid"
  shows "fst (page_strength_tests su f db) = save_test cid eid f db"
  using assms
  by (simp add: page_strength_tests_def Let_def split: option.splits sum.splits)

lemma page_sessions_adds_session:
  assumes "f_click f = Add_Session" and "plan_map (training_plans db) (f_plan f) = Some pk"
  shows "\<exists>plan. get_plan db (Some pk) = Some plan \<and> plan_id plan = pk \<and>
           fst (page_sessions f db) = add_session plan f db"
proof -
  from plan_map_get_plan [OF assms(2)]
  obtain plan where p: "get_plan db (Some pk) = Some plan" and i: "plan_id plan = pk" by blast
  from assms(2) have ne: "training_plans db \<noteq> []"
    by (auto simp: plan_map_def)
  have "\<And>ss. \<forall>s\<in>set ss. f_click f \<noteq> Add_Set (session_id s)"
    using assms(1) by simp
  then have nc: "\<And>plan exmap ss d. fst (session_blocks plan f exmap ss d) = d"
    by (rule session_blocks_no_click)
  have "fst (page_sessions f db) = add_session plan f db"
    by (simp add: page_sessions_store_eq ne assms p nc)
  with p i show ?thesis by blast
qed

lemma get_exercise_add_set: "get_exercise (add_set s ex_id w db) k = get_exercise db k"
  by (simp add: get_exercise_def add_set_def insert_set_prescription_def Let_def
      split: option.splits)

lemma add_set_displayable:
  assumes "\<forall>sp\<in>set (set_prescriptions db).
             get_exercise db (sp_exercise_id sp) \<noteq> None \<and> sp_load_kg sp \<noteq> None"
    and "get_exercise db (Some ex_id) \<noteq> None"
  shows "\<forall>sp\<in>set (set_prescriptions (add_set s ex_id w db)).
           get_exercise (add_set s ex_id w db) (sp_exercise_id sp) \<noteq> None \<and> sp_load_kg sp \<noteq> None"
  using assms
  by (auto simp: get_exercise_add_set) (auto simp: add_set_def insert_set_prescription_def Let_def)

lemma session_tonnage_total:
  assumes "\<forall>sp\<in>set (set_prescriptions db).
             get_exercise db (sp_exercise_id sp) \<noteq> None \<and> sp_load_kg sp \<noteq> None"
  shows "\<exists>shown. session_tonnage db sid = Inr shown"
proof -
  from assms have "\<forall>sp\<in>set (filter (\<lambda>sp. sp_session_id sp = Some sid) (set_prescriptions db)).
      get_exercise db (sp_exercise_id sp) \<noteq> None \<and> sp_load_kg sp \<noteq> None"
    by simp
  from show_sets_total [OF this, of 0] show ?thesis
    by (simp add: session_tonnage_def)
qed

lemma session_blocks_renders:
  assumes "\<forall>s\<in>set ss. exmap (sf_ex_name (f_set f (session_id s))) \<noteq> None"
    and "\<forall>k i. exmap k = Some i \<longrightarrow> get_exercise db (Some i) \<noteq> None"
    and "\<forall>sp\<in>set (set_prescriptions db).
           get_exercise db (sp_exercise_id sp) \<noteq> None \<and> sp_load_kg sp \<noteq> None"
  shows "\<exists>vs. snd (session_blocks plan f exmap ss db) = Inr vs"
  using assms
proof (induction ss arbitrary: db)
  case Nil
  then show ?case by simp
next
  case (Cons s ss)
  from Cons.prems(1) obtain ex_id where ex: "exmap (sf_ex_name (f_set f (session_id s))) = Some ex_id"
    by auto
  with Cons.prems(2) have ge: "get_exercise db (Some ex_id) \<noteq> None" by blast
  define db1 where "db1 = (if f_click f = Add_Set (session_id s)
      then add_set s ex_id (f_set f (session_id s)) db else db)"
  have g1: "\<And>k. get_exercise db1 k = get_exercise db k"
    by (simp add: db1_def get_exercise_add_set)
  have d1: "\<forall>sp\<in>set (set_prescriptions db1).
      get_exercise db1 (sp_exercise_id sp) \<noteq> None \<and> sp_load_kg sp \<noteq> None"
    unfolding db1_def using add_set_displayable [OF Cons.prems(3) ge] Cons.prems(3) by simp
  from session_tonnage_total [OF d1]
  obtain shown where st: "session_tonnage db1 (session_id s) = Inr shown" by blast
  have "\<forall>k i. exmap k = Some i \<longrightarrow> get_exercise db1 (Some i) \<noteq> None"
    using Cons.prems(2) by (simp add: g1)
  from Cons.IH [OF _ this d1] Cons.prems(1)
  obtain vs where r: "snd (session_blocks plan f exmap ss db1) = Inr vs" by auto
  obtain db2 where r2: "session_blocks plan f exmap ss db1 = (db2, Inr vs)"
    using r by (cases "session_blocks plan f exmap ss db1") auto
  show ?case
    using ex st r2 by (simp add: Let_def db1_def [symmetric])
qed

lemma page_sessions_adds_set:
  assumes d: "distinct (map session_id (training_sessions db))"
    and c: "f_click f = Add_Set (session_id s)"
    and pm: "plan_map (training_plans db) (f_plan f) = Some pk"
    and s: "s \<in> set (training_sessions db)" and sp: "session_plan_id s = Some pk"
    and keys: "\<forall>x\<in>set (training_sessions db). session_plan_id x = Some pk \<longrightarrow>
        exercise_map (exercises db) (sf_ex_name (f_set f (session_id x))) \<noteq> None"
    and disp: "\<forall>sp\<in>set (set_prescriptions db).
        get_exercise db (sp_exercise_id sp) \<noteq> None \<and> sp_load_kg sp \<noteq> None"
  shows "\<exists>ex_id vs. exercise_map (exercises db) (sf_ex_name (f_set f (session_id s))) = Some ex_id \<and>
     page_sessions f db = (add_set s ex_id (f_set f (session_id s)) db, Inr (Session_List vs))"
proof -
  from plan_map_get_plan [OF pm]
  obtain plan where p: "get_plan db (Some pk) = Some plan" and i: "plan_id plan = pk" by blast
  from pm have ne: "training_plans db \<noteq> []"
    by (auto simp: plan_map_def)
  let ?ss = "sort_key session_date (filter (\<lambda>s. session_plan_id s = Some pk) (training_sessions db))"
  let ?exmap = "exercise_map (exercises db)"
  have k: "\<forall>x\<in>set ?ss. ?exmap (sf_ex_name (f_set f (session_id x))) \<noteq> None"
    using keys by simp
  have rng: "\<forall>k i. ?exmap k = Some i \<longrightarrow> get_exercise db (Some i) \<noteq> None"
    using exercise_map_get_exercise by blast
  from session_blocks_renders [OF k rng disp, of plan]
  obtain vs where "snd (session_blocks plan f ?exmap ?ss db) = Inr vs" by blast
  then obtain db' where sb: "session_blocks plan f ?exmap ?ss db = (db', Inr vs)"
    by (cases "session_blocks plan f ?exmap ?ss db") auto
  have ds: "distinct (map session_id ?ss)"
    using d by (rule distinct_ids_sorted_filter)
  have m: "s \<in> set ?ss" using s sp by simp
  from session_blocks_added [OF sb ds m c]
  obtain ex_id where ex: "?exmap (sf_ex_name (f_set f (session_id s))) = Some ex_id"
    and a: "db' = add_set s ex_id (f_set f (session_id s)) db" by blast
  have "page_sessions f db = (db', Inr (Session_List vs))"
    using c by (simp add: page_sessions_def ne pm p i Let_def sb)
  with ex a show ?thesis by blast
qed

text \<open>
  C9. In a store whose sessions have distinct keys.

  The strength tests page: a run leaves the store as it was or, when the save button was
  pressed, with one row more in \<^verbatim>\<open>strength_tests\<close> and nothing else changed. It does insert
  that row, with the client, the exercise, the date and the 1RM of the form, whenever the
  button is pressed on a page that shows the form (the coach has clients, each with its
  user row, and there are exercises) with a client and an exercise of the select boxes
  chosen; and whenever the button was pressed and the history was written.

  The sessions page: a run leaves the store as it was, or with one row more in
  \<^verbatim>\<open>training_sessions\<close> when the button that adds a session was pressed, or with one row
  more in \<^verbatim>\<open>set_prescriptions\<close>, for the session whose button was pressed. It does
  insert the session, for the plan and the date of the form, whenever that button is
  pressed with a plan of the select box chosen. It does insert the set, with the exercise,
  sets, reps and load of the form, and renders the page to its end, whenever the button
  of a session of the chosen plan is pressed, the exercise chosen for every session of the
  plan is one of the select box, and every set of the store can be shown (it has its
  exercise row and a load, as every set added by the page has). The two conditional
  statements of the strength tests page hold here as well.

  A run of the whole script that is not a reset, whatever the page and however it ends,
  only appends rows: every row that was in a table is still there, unchanged and in its
  place.
\<close>

theorem form_submission_inserts_one_row:
  assumes "distinct (map session_id (training_sessions db))"
  shows
    "(fst (page_strength_tests su tf db) = db \<or>
      (tf_save tf \<and>
       (\<exists>t. fst (page_strength_tests su tf db) =
              db\<lparr>strength_tests := strength_tests db @ [t]\<rparr>))) \<and>
     (tf_save tf \<and>
      filter (\<lambda>c. client_owner_id c = Some (su_id su)) (clients db) \<noteq> [] \<and>
      client_map db (filter (\<lambda>c. client_owner_id c = Some (su_id su)) (clients db)) Map.empty
        = Inr cmap \<and>
      exercises db \<noteq> [] \<and> cmap (tf_client_name tf) = Some cid \<and>
      exercise_map (exercises db) (tf_ex_name tf) = Some eid
        \<longrightarrow> (\<exists>t. fst (page_strength_tests su tf db) =
                   db\<lparr>strength_tests := strength_tests db @ [t]\<rparr> \<and>
                 test_client_id t = Some cid \<and> test_exercise_id t = Some eid \<and>
                 test_date t = Some (tf_date tf) \<and> test_one_rm_kg t = Some (tf_onerm tf))) \<and>
     (tf_save tf \<and> page_strength_tests su tf db = (db1, Inr (History ls))
        \<longrightarrow> (\<exists>t. db1 = db\<lparr>strength_tests := strength_tests db @ [t]\<rparr> \<and>
                 test_date t = Some (tf_date tf) \<and> test_one_rm_kg t = Some (tf_onerm tf))) \<and>
     (fst (page_sessions sf db) = db \<or>
      (f_click sf = Add_Session \<and>
       (\<exists>s. fst (page_sessions sf db) =
              db\<lparr>training_sessions := training_sessions db @ [s]\<rparr>)) \<or>
      (\<exists>sid sp. f_click sf = Add_Set sid \<and> sp_session_id sp = Some sid \<and>
          fst (page_sessions sf db) =
            db\<lparr>set_prescriptions := set_prescriptions db @ [sp]\<rparr>)) \<and>
     (f_click sf = Add_Session \<and> plan_map (training_plans db) (f_plan sf) = Some pk
        \<longrightarrow> (\<exists>s. fst (page_sessions sf db) =
                   db\<lparr>training_sessions := training_sessions db @ [s]\<rparr> \<and>
                 session_plan_id s = Some pk \<and> session_date s = f_date sf)) \<and>
     (f_click sf = Add_Set (session_id x) \<and>
      plan_map (training_plans db) (f_plan sf) = Some pk \<and>
      x \<in> set (training_sessions db) \<and> session_plan_id x = Some pk \<and>
      (\<forall>y\<in>set (training_sessions db). session_plan_id y = Some pk \<longrightarrow>
          exercise_map (exercises db) (sf_ex_name (f_set sf (session_id y))) \<noteq> None) \<and>
      (\<forall>sp\<in>set (set_prescriptions db).
          get_exercise db (sp_exercise_id sp) \<noteq> None \<and> sp_load_kg sp \<noteq> None)
        \<longrightarrow> (\<exists>sp vs. page_sessions sf db =
                     (db\<lparr>set_prescriptions := set_prescriptions db @ [sp]\<rparr>,
                      Inr (Session_List vs)) \<and>
                  sp_session_id sp = Some (session_id x) \<and>
                  sp_exercise_id sp =
                    exercise_map (exercises db) (sf_ex_name (f_set sf (session_id x))) \<and>
                  sp_sets sp = Some (sf_sets (f_set sf (session_id x))) \<and>
                  sp_reps sp = Some (sf_reps (f_set sf (session_id x))) \<and>
                  sp_load_kg sp = Some (sf_load (f_set sf (session_id x))))) \<and>
     (f_click sf = Add_Session \<and> page_sessions sf db = (db2, Inr (Session_List vs))
        \<longrightarrow> (\<exists>s. db2 = db\<lparr>training_sessions := training_sessions db @ [s]\<rparr> \<and>
                 session_date s = f_date sf)) \<and>
     (f_click sf = Add_Set sid \<and> page_sessions sf db = (db2, Inr (Session_List vs)) \<and>
      sid \<in> session_id ` sv_session ` set vs
        \<longrightarrow> (\<exists>sp. db2 = db\<lparr>set_prescriptions := set_prescriptions db @ [sp]\<rparr> \<and>
                  sp_session_id sp = Some sid \<and> sp_load_kg sp = Some (sf_load (f_set sf sid)))) \<and>
     (\<not> (w_reset w \<and> sb_page (w_sidebar w) = Settings)
        \<longrightarrow> only_appends db (fst (run_script cki ckr w db ss)))"
proof (intro conjI impI)
  from page_strength_tests_store [of su tf db]
  show "fst (page_strength_tests su tf db) = db \<or>
      (tf_save tf \<and>
       (\<exists>t. fst (page_strength_tests su tf db) =
              db\<lparr>strength_tests := strength_tests db @ [t]\<rparr>))"
  proof
    assume "fst (page_strength_tests su tf db) = db"
    then show ?thesis ..
  next
    assume "tf_save tf \<and> (\<exists>cid eid. fst (page_strength_tests su tf db) = save_test cid eid tf db)"
    then obtain cid eid where s: "tf_save tf"
      and e: "fst (page_strength_tests su tf db) = save_test cid eid tf db"
      by blast
    from save_test_row [of cid eid tf db] e
    have "\<exists>t. fst (page_strength_tests su tf db) = db\<lparr>strength_tests := strength_tests db @ [t]\<rparr>"
      by auto
    with s show ?thesis by blast
  qed
next
  assume a: "tf_save tf \<and>
      filter (\<lambda>c. client_owner_id c = Some (su_id su)) (clients db) \<noteq> [] \<and>
      client_map db (filter (\<lambda>c. client_owner_id c = Some (su_id su)) (clients db)) Map.empty
        = Inr cmap \<and>
      exercises db \<noteq> [] \<and> cmap (tf_client_name tf) = Some cid \<and>
      exercise_map (exercises db) (tf_ex_name tf) = Some eid"
  then have h1: "tf_save tf"
    and h2: "filter (\<lambda>c. client_owner_id c = Some (su_id su)) (clients db) \<noteq> []"
    and h3: "client_map db (filter (\<lambda>c. client_owner_id c = Some (su_id su)) (clients db))
        Map.empty = Inr cmap"
    and h4: "exercises db \<noteq> []" and h5: "cmap (tf_client_name tf) = Some cid"
    and h6: "exercise_map (exercises db) (tf_ex_name tf) = Some eid"
    by blast+
  have "fst (page_strength_tests su tf db) = save_test cid eid tf db"
    by (rule page_strength_tests_saves [OF h1 h2 h3 h4 h5 h6])
  with save_test_row [of cid eid tf db]
  show "\<exists>t. fst (page_strength_tests su tf db) =
                   db\<lparr>strength_tests := strength_tests db @ [t]\<rparr> \<and>
                 test_client_id t = Some cid \<and> test_exercise_id t = Some eid \<and>
                 test_date t = Some (tf_date tf) \<and> test_one_rm_kg t = Some (tf_onerm tf)"
    by auto
next
  assume a: "tf_save tf \<and> page_strength_tests su tf db = (db1, Inr (History ls))"
  from page_strength_tests_saved [OF conjunct2 [OF a] conjunct1 [OF a]]
  obtain cid eid where "db1 = save_test cid eid tf db" by blast
  with save_test_row [of cid eid tf db]
  show "\<exists>t. db1 = db\<lparr>strength_tests := strength_tests db @ [t]\<rparr> \<and>
           test_date t = Some (tf_date tf) \<and> test_one_rm_kg t = Some (tf_onerm tf)"
    by auto
next
  from page_sessions_store [OF assms, of sf]
  consider "fst (page_sessions sf db) = db"
    | plan where "f_click sf = Add_Session" "fst (page_sessions sf db) = add_session plan sf db"
    | s ex_id where "f_click sf = Add_Set (session_id s)"
        "fst (page_sessions sf db) = add_set s ex_id (f_set sf (session_id s)) db"
    by blast
  then show "fst (page_sessions sf db) = db \<or>
      (f_click sf = Add_Session \<and>
       (\<exists>s. fst (page_sessions sf db) =
              db\<lparr>training_sessions := training_sessions db @ [s]\<rparr>)) \<or>
      (\<exists>sid sp. f_click sf = Add_Set sid \<and> sp_session_id sp = Some sid \<and>
          fst (page_sessions sf db) =
            db\<lparr>set_prescriptions := set_prescriptions db @ [sp]\<rparr>)"
  proof cases
    case 1
    then show ?thesis by simp
  next
    case 2
    with add_session_row [of plan sf db] show ?thesis by auto
  next
    case 3
    from add_set_row [of s ex_id "f_set sf (session_id s)" db]
    obtain sp where "add_set s ex_id (f_set sf (session_id s)) db =
        db\<lparr>set_prescriptions := set_prescriptions db @ [sp]\<rparr>"
      and "sp_session_id sp = Some (session_id s)"
      by blast
    with 3 show ?thesis by auto
  qed
next
  assume a: "f_click sf = Add_Session \<and> plan_map (training_plans db) (f_plan sf) = Some pk"
  from page_sessions_adds_session [OF conjunct1 [OF a] conjunct2 [OF a]]
  obtain plan where "plan_id plan = pk" and "fst (page_sessions sf db) = add_session plan sf db"
    by blast
  with add_session_row [of plan sf db]
  show "\<exists>s. fst (page_sessions sf db) =
                   db\<lparr>training_sessions := training_sessions db @ [s]\<rparr> \<and>
                 session_plan_id s = Some pk \<and> session_date s = f_date sf"
    by auto
next
  assume a: "f_click sf = Add_Set (session_id x) \<and>
      plan_map (training_plans db) (f_plan sf) = Some pk \<and>
      x \<in> set (training_sessions db) \<and> session_plan_id x = Some pk \<and>
      (\<forall>y\<in>set (training_sessions db). session_plan_id y = Some pk \<longrightarrow>
          exercise_map (exercises db) (sf_ex_name (f_set sf (session_id y))) \<noteq> None) \<and>
      (\<forall>sp\<in>set (set_prescriptions db).
          get_exercise db (sp_exercise_id sp) \<noteq> None \<and> sp_load_kg sp \<noteq> None)"
  then have c: "f_click sf = Add_Set (session_id x)"
    and pm: "plan_map (training_plans db) (f_plan sf) = Some pk"
    and m: "x \<in> set (training_sessions db)" and sp: "session_plan_id x = Some pk"
    and keys: "\<forall>y\<in>set (training_sessions db). session_plan_id y = Some pk \<longrightarrow>
          exercise_map (exercises db) (sf_ex_name (f_set sf (session_id y))) \<noteq> None"
    and disp: "\<forall>sp\<in>set (set_prescriptions db).
          get_exercise db (sp_exercise_id sp) \<noteq> None \<and> sp_load_kg sp \<noteq> None"
    by blast+
  from page_sessions_adds_set [OF assms c pm m sp keys disp]
  obtain ex_id vs where ex: "exercise_map (exercises db) (sf_ex_name (f_set sf (session_id x))) = Some ex_id"
    and p: "page_sessions sf db = (add_set x ex_id (f_set sf (session_id x)) db, Inr (Session_List vs))"
    by blast
  from add_set_row [of x ex_id "f_set sf (session_id x)" db]
  obtain row where "add_set x ex_id (f_set sf (session_id x)) db =
      db\<lparr>set_prescriptions := set_prescriptions db @ [row]\<rparr>"
    and "sp_session_id row = Some (session_id x)" and "sp_exercise_id row = Some ex_id"
    and "sp_sets row = Some (sf_sets (f_set sf (session_id x)))"
    and "sp_reps row = Some (sf_reps (f_set sf (session_id x)))"
    and "sp_load_kg row = Some (sf_load (f_set sf (session_id x)))"
    by blast
  with p ex
  show "\<exists>sp vs. page_sessions sf db =
                     (db\<lparr>set_prescriptions := set_prescriptions db @ [sp]\<rparr>,
                      Inr (Session_List vs)) \<and>
                  sp_session_id sp = Some (session_id x) \<and>
                  sp_exercise_id sp =
                    exercise_map (exercises db) (sf_ex_name (f_set sf (session_id x))) \<and>
                  sp_sets sp = Some (sf_sets (f_set sf (session_id x))) \<and>
                  sp_reps sp = Some (sf_reps (f_set sf (session_id x))) \<and>
                  sp_load_kg sp = Some (sf_load (f_set sf (session_id x)))"
    by auto
next
  assume a: "f_click sf = Add_Session \<and> page_sessions sf db = (db2, Inr (Session_List vs))"
  from page_sessions_session_added [OF conjunct2 [OF a] conjunct1 [OF a]]
  obtain plan where "db2 = add_session plan sf db" ..
  with add_session_row [of plan sf db]
  show "\<exists>s. db2 = db\<lparr>training_sessions := training_sessions db @ [s]\<rparr> \<and>
           session_date s = f_date sf"
    by auto
next
  assume a: "f_click sf = Add_Set sid \<and> page_sessions sf db = (db2, Inr (Session_List vs)) \<and>
      sid \<in> session_id ` sv_session ` set vs"
  then have c: "f_click sf = Add_Set sid" and p: "page_sessions sf db = (db2, Inr (Session_List vs))"
    and m: "sid \<in> session_id ` sv_session ` set vs"
    by simp_all
  from page_sessions_set_added [OF p c m assms]
  obtain s ex_id where "session_id s = sid" and "db2 = add_set s ex_id (f_set sf sid) db"
    by blast
  with add_set_row [of s ex_id "f_set sf sid" db]
  show "\<exists>sp. db2 = db\<lparr>set_prescriptions := set_prescriptions db @ [sp]\<rparr> \<and>
            sp_session_id sp = Some sid \<and> sp_load_kg sp = Some (sf_load (f_set sf sid))"
    by auto
next
  assume "\<not> (w_reset w \<and> sb_page (w_sidebar w) = Settings)"
  then show "only_appends db (fst (run_script cki ckr w db ss))"
    by (rule only_appends_run_script)
qed

text \<open>
  From the sample store, the coach signed in. The save button of the strength tests page,
  with the deadlift chosen, stores test 5 of client 1 at 140 kg, and the history has four
  lines; the button that adds a session stores session 2 of plan 1; the button that adds
  a set to session 1 stores one set of bench press at the 60 kg of the load field, after
  which the session shows 1800 + 1440 kg; and a run of the script with the button that
  adds a session pressed only appends.
\<close>

theorem form_submission_inserts_one_row_witness:
  "distinct (map session_id (training_sessions sample_store)) \<and>
   tf_save (sample_tests_form\<lparr>tf_save := True\<rparr>) \<and>
   client_map sample_store
     (filter (\<lambda>c. client_owner_id c = Some (su_id sample_coach)) (clients sample_store))
     Map.empty = Inr [''Client Demo'' \<mapsto> 1] \<and>
   exercise_map (exercises sample_store) (tf_ex_name (sample_tests_form\<lparr>tf_save := True\<rparr>)) =
     Some 3 \<and>
   (\<exists>t. fst (page_strength_tests sample_coach (sample_tests_form\<lparr>tf_save := True\<rparr>) sample_store) =
          sample_store\<lparr>strength_tests := strength_tests sample_store @ [t]\<rparr> \<and>
        test_client_id t = Some 1 \<and> test_exercise_id t = Some 3 \<and>
        test_date t = Some 739924 \<and> test_one_rm_kg t = Some 140) \<and>
   page_strength_tests sample_coach (sample_tests_form\<lparr>tf_save := True\<rparr>) sample_store =
     (sample_store\<lparr>strength_tests := strength_tests sample_store @
        [\<lparr>test_id = 5, test_client_id = Some 1, test_exercise_id = Some 3,
          test_date = Some 739924, test_one_rm_kg = Some 140, test_notes = Some ''''\<rparr>]\<rparr>,
      Inr (History
        [\<lparr>line_date = Some 739924, line_exercise = Some ''Deadlift'', line_one_rm_kg = 140\<rparr>,
         \<lparr>line_date = Some 739920, line_exercise = Some ''Back Squat'', line_one_rm_kg = 120\<rparr>,
         \<lparr>line_date = Some 739910, line_exercise = Some ''Bench Press'', line_one_rm_kg = 0\<rparr>,
         \<lparr>line_date = Some 739900, line_exercise = Some ''Back Squat'', line_one_rm_kg = 100\<rparr>])) \<and>
   f_click (sample_sessions_form\<lparr>f_click := Add_Session\<rparr>) = Add_Session \<and>
   plan_map (training_plans sample_store) (f_plan (sample_sessions_form\<lparr>f_click := Add_Session\<rparr>)) =
     Some 1 \<and>
   (\<exists>s. fst (page_sessions (sample_sessions_form\<lparr>f_click := Add_Session\<rparr>) sample_store) =
          sample_store\<lparr>training_sessions := training_sessions sample_store @ [s]\<rparr> \<and>
        session_plan_id s = Some 1 \<and> session_date s = Some 739926) \<and>
   fst (page_sessions (sample_sessions_form\<lparr>f_click := Add_Session\<rparr>) sample_store) =
     sample_store\<lparr>training_sessions := training_sessions sample_store @
       [\<lparr>session_id = 2, session_plan_id = Some 1, session_date = Some 739926,
         session_focus = Some ''Fuerza'', session_notes = Some ''''\<rparr>]\<rparr> \<and>
   f_click (sample_sessions_form\<lparr>f_click := Add_Set 1\<rparr>) = Add_Set 1 \<and>
   (\<exists>sp vs. page_sessions (sample_sessions_form\<lparr>f_click := Add_Set 1\<rparr>) sample_store =
        (sample_store\<lparr>set_prescriptions := set_prescriptions sample_store @ [sp]\<rparr>,
         Inr (Session_List vs)) \<and>
      sp_session_id sp = Some 1 \<and> sp_exercise_id sp = Some 2 \<and> sp_sets sp = Some 4 \<and>
      sp_reps sp = Some 6 \<and> sp_load_kg sp = Some 60) \<and>
   snd (page_sessions (sample_sessions_form\<lparr>f_click := Add_Set 1\<rparr>) sample_store) =
     Inr (Session_List
       [\<lparr>sv_session = \<lparr>session_id = 1, session_plan_id = Some 1, session_date = Some 739925,
            session_focus = Some ''Fuerza'', session_notes = Some ''''\<rparr>,
         sv_one_rm_default = 100, sv_tonnage = 3240\<rparr>]) \<and>
   only_appends sample_store
     (fst (run_script sample_clock sample_clock
        \<lparr>w_sidebar = sample_sidebar, w_tests = sample_tests_form,
         w_sessions = sample_sessions_form\<lparr>f_click := Add_Session\<rparr>, w_reset = False\<rparr>
        sample_store (Some sample_coach)))"
proof -
  let ?tf = "sample_tests_form\<lparr>tf_save := True\<rparr>"
  let ?fa = "sample_sessions_form\<lparr>f_click := Add_Session\<rparr>"
  let ?f = "sample_sessions_form\<lparr>f_click := Add_Set 1\<rparr>"
  let ?x = "\<lparr>session_id = 1, session_plan_id = Some 1, session_date = Some 739925,
            session_focus = Some ''Fuerza'', session_notes = Some ''''\<rparr>"
  let ?w = "\<lparr>w_sidebar = sample_sidebar, w_tests = sample_tests_form,
         w_sessions = sample_sessions_form\<lparr>f_click := Add_Session\<rparr>, w_reset = False\<rparr>"
  have h: "distinct (map session_id (training_sessions sample_store))"
    by (simp add: sample_store_def)
  note t = form_submission_inserts_one_row [OF h]
  have s1: "tf_save ?tf" by simp
  have s2: "filter (\<lambda>c. client_owner_id c = Some (su_id sample_coach)) (clients sample_store) \<noteq> []"
    by (simp add: sample_store_def sample_coach_def)
  have s3: "client_map sample_store
     (filter (\<lambda>c. client_owner_id c = Some (su_id sample_coach)) (clients sample_store))
     Map.empty = Inr [''Client Demo'' \<mapsto> 1]"
    by (simp add: sample_store_def sample_coach_def get_user_def)
  have s4: "exercises sample_store \<noteq> []"
    by (simp add: sample_store_def)
  have s5: "[''Client Demo'' \<mapsto> (1::int)] (tf_client_name ?tf) = Some 1"
    by (simp add: sample_tests_form_def)
  have s6: "exercise_map (exercises sample_store) (tf_ex_name ?tf) = Some 3"
    by (simp add: sample_store_def sample_tests_form_def exercise_map_def)
  have sv: "tf_date ?tf = 739924 \<and> tf_onerm ?tf = 140"
    by (simp add: sample_tests_form_def)
  have 1: "\<exists>t. fst (page_strength_tests sample_coach ?tf sample_store) =
          sample_store\<lparr>strength_tests := strength_tests sample_store @ [t]\<rparr> \<and>
        test_client_id t = Some 1 \<and> test_exercise_id t = Some 3 \<and>
        test_date t = Some 739924 \<and> test_one_rm_kg t = Some 140"
    using t [of sample_coach ?tf "[''Client Demo'' \<mapsto> 1]" 1 3,
        THEN conjunct2, THEN conjunct1, rule_format, OF conjI [OF s1 conjI [OF s2 conjI [OF s3
          conjI [OF s4 conjI [OF s5 s6]]]]]] sv
    by simp
  have e1: "page_strength_tests sample_coach ?tf sample_store =
     (sample_store\<lparr>strength_tests := strength_tests sample_store @
        [\<lparr>test_id = 5, test_client_id = Some 1, test_exercise_id = Some 3,
          test_date = Some 739924, test_one_rm_kg = Some 140, test_notes = Some ''''\<rparr>]\<rparr>,
      Inr (History
        [\<lparr>line_date = Some 739924, line_exercise = Some ''Deadlift'', line_one_rm_kg = 140\<rparr>,
         \<lparr>line_date = Some 739920, line_exercise = Some ''Back Squat'', line_one_rm_kg = 120\<rparr>,
         \<lparr>line_date = Some 739910, line_exercise = Some ''Bench Press'', line_one_rm_kg = 0\<rparr>,
         \<lparr>line_date = Some 739900, line_exercise = Some ''Back Squat'', line_one_rm_kg = 100\<rparr>]))"
    by (simp add: page_strength_tests_def sample_tests_form_def sample_store_def sample_coach_def
        get_user_def exercise_map_def save_test_def insert_strength_test_def next_rowid_def
        recent_tests_def order_by_desc_def get_exercise_def Let_def)
  have a1: "f_click ?fa = Add_Session" by simp
  have a2: "plan_map (training_plans sample_store) (f_plan ?fa) = Some 1"
    by (simp add: plan_map_def sample_store_def sample_sessions_form_def)
  have av: "f_date ?fa = Some 739926"
    by (simp add: sample_sessions_form_def)
  have 2: "\<exists>s. fst (page_sessions ?fa sample_store) =
          sample_store\<lparr>training_sessions := training_sessions sample_store @ [s]\<rparr> \<and>
        session_plan_id s = Some 1 \<and> session_date s = Some 739926"
    using t [of _ _ _ _ _ _ _ ?fa 1, THEN conjunct2, THEN conjunct2, THEN conjunct2, THEN conjunct2,
        THEN conjunct1, rule_format, OF conjI [OF a1 a2]] av
    by simp
  have e2: "fst (page_sessions ?fa sample_store) =
     sample_store\<lparr>training_sessions := training_sessions sample_store @
       [\<lparr>session_id = 2, session_plan_id = Some 1, session_date = Some 739926,
         session_focus = Some ''Fuerza'', session_notes = Some ''''\<rparr>]\<rparr>"
    by (simp add: page_sessions_def sample_sessions_form_def sample_store_def plan_map_def
        get_plan_def exercise_map_def add_session_def insert_session_def next_rowid_def
        session_tonnage_def get_exercise_def tonnage_def py_or_def Let_def
        get_latest_one_rm_def order_by_desc_def get_client_id_from_plan_def one_rm_default_def)
  have c1: "f_click ?f = Add_Set (session_id ?x)" by simp
  have c2: "plan_map (training_plans sample_store) (f_plan ?f) = Some 1"
    by (simp add: plan_map_def sample_store_def sample_sessions_form_def)
  have c3: "?x \<in> set (training_sessions sample_store)"
    by (simp add: sample_store_def)
  have c4: "session_plan_id ?x = Some 1" by simp
  have c5: "\<forall>y\<in>set (training_sessions sample_store). session_plan_id y = Some 1 \<longrightarrow>
      exercise_map (exercises sample_store) (sf_ex_name (f_set ?f (session_id y))) \<noteq> None"
    by (simp add: sample_store_def sample_sessions_form_def exercise_map_def)
  have c6: "\<forall>sp\<in>set (set_prescriptions sample_store).
      get_exercise sample_store (sp_exercise_id sp) \<noteq> None \<and> sp_load_kg sp \<noteq> None"
    by (simp add: sample_store_def get_exercise_def)
  have cv: "exercise_map (exercises sample_store) (sf_ex_name (f_set ?f (session_id ?x))) = Some 2 \<and>
      sf_sets (f_set ?f (session_id ?x)) = 4 \<and> sf_reps (f_set ?f (session_id ?x)) = 6 \<and>
      sf_load (f_set ?f (session_id ?x)) = 60"
    by (simp add: sample_store_def sample_sessions_form_def exercise_map_def)
  have 3: "\<exists>sp vs. page_sessions ?f sample_store =
        (sample_store\<lparr>set_prescriptions := set_prescriptions sample_store @ [sp]\<rparr>,
         Inr (Session_List vs)) \<and>
      sp_session_id sp = Some 1 \<and> sp_exercise_id sp = Some 2 \<and> sp_sets sp = Some 4 \<and>
      sp_reps sp = Some 6 \<and> sp_load_kg sp = Some 60"
    using t [of _ _ _ _ _ _ _ ?f 1 ?x, THEN conjunct2, THEN conjunct2, THEN conjunct2,
        THEN conjunct2, THEN conjunct2, THEN conjunct1, rule_format,
        OF conjI [OF c1 conjI [OF c2 conjI [OF c3 conjI [OF c4 conjI [OF c5 c6]]]]]] cv
    by simp
  have e3: "snd (page_sessions ?f sample_store) =
     Inr (Session_List
       [\<lparr>sv_session = ?x, sv_one_rm_default = 100, sv_tonnage = 3240\<rparr>])"
    by (simp add: page_sessions_def sample_sessions_form_def sample_store_def plan_map_def
        get_plan_def exercise_map_def add_set_def insert_set_prescription_def next_rowid_def
        session_tonnage_def get_exercise_def tonnage_def py_or_def Let_def
        get_latest_one_rm_def order_by_desc_def get_client_id_from_plan_def one_rm_default_def)
  have r: "\<not> (w_reset ?w \<and> sb_page (w_sidebar ?w) = Settings)"
    by simp
  have 4: "only_appends sample_store
     (fst (run_script sample_clock sample_clock ?w sample_store (Some sample_coach)))"
    using t [of _ _ _ _ _ _ _ _ _ _ _ _ _ ?w sample_clock sample_clock "Some sample_coach",
        THEN conjunct2, THEN conjunct2, THEN conjunct2, THEN conjunct2, THEN conjunct2,
        THEN conjunct2, THEN conjunct2, THEN conjunct2, rule_format, OF r] .
  have c0: "f_click ?f = Add_Set 1" by simp
  from h s1 s3 s6 1 e1 a1 a2 2 e2 c0 3 e3 4 show ?thesis by (intro conjI)
qed

end
